theory Spec2Isabelle
  imports Main "HOL-Library.Word"
begin

section \<open>Values shared by the Go sources\<close>

text \<open>
  Go strings are byte sequences: \<open>string\<close> (a \<open>char list\<close>, one \<open>char\<close> per byte).
  \<open>int\<close> is taken as the 64-bit \<open>int\<close> of the usual build targets, \<open>int64\<close> is a
  64-bit word read through \<open>sint\<close>; arithmetic on both wraps around. Lengths of strings and
  slices are natural numbers (they are far below \<open>2^63\<close>). A \<open>nil\<close> slice and an empty
  slice are both the empty list.
\<close>

type_synonym int64 = "64 word"
type_synonym go_int = "64 word"

datatype num_error = ErrSyntax | ErrRange

text \<open>
  The \<open>error\<close> values that reach the code: \<open>ErrNotExist\<close> of this package, \<open>io.EOF\<close>,
  the \<open>*NumError\<close> of \<open>strconv\<close>, a failure of the external git process (its message),
  and the result of \<open>concatenateError\<close>.
\<close>

datatype error =
    ErrNotExist string string
  | EOF
  | NumError num_error
  | ExitError string
  | ConcatenatedError error string

text \<open>The run-time panics of indexing and slicing.\<close>

datatype panic = IndexOutOfRange | SliceBoundsOutOfRange

text \<open>
  The outcome of a call that either panics, or returns \<open>(nil, err)\<close>, or returns
  \<open>(value, nil)\<close>.
\<close>

datatype 'a outcome = Panics panic | Fails error | Returns 'a

text \<open>
  The external process: the working directory and the argument vector of a \<open>Command\<close> go in,
  the pair \<open>(stdout, err)\<close> of \<open>RunInDir\<close> / \<open>RunPipesInDir\<close> comes out. Each function
  below takes the runner as its first argument, and the definition named \<open>...Cmd\<close> before
  it is the command it builds with \<open>NewCommand\<close> and \<open>AddArguments\<close>.
\<close>

type_synonym runner = "string \<Rightarrow> string list \<Rightarrow> string \<times> error option"

section \<open>The library functions the sources call\<close>

subsection \<open>\<open>strings.Split\<close> and \<open>strings.SplitN\<close>\<close>

text \<open>
  \<open>strings.Split(s, sep)\<close> for a non-empty \<open>sep\<close> (the sources only pass the constants
  \<open>"\n"\<close>, \<open>"\n\n"\<close>, \<open>":"\<close> and \<open>"="\<close>): the pieces between the leftmost,
  non-overlapping occurrences of \<open>sep\<close>; always at least one piece.
\<close>

function SplitAcc :: "string \<Rightarrow> string \<Rightarrow> string \<Rightarrow> string list" where
  "SplitAcc sep cur [] = [cur]"
| "SplitAcc sep cur (c # cs) =
     (if sep \<noteq> [] \<and> take (length sep) (c # cs) = sep
      then cur # SplitAcc sep [] (drop (length sep) (c # cs))
      else SplitAcc sep (cur @ [c]) cs)"
  by pat_completeness auto
termination
  by (relation "measure (\<lambda>(sep, cur, s). length s)") auto

definition Split :: "string \<Rightarrow> string \<Rightarrow> string list" where
  "Split s sep = SplitAcc sep [] s"

text \<open>\<open>strings.SplitN(s, sep, 2)\<close>: cut at the first occurrence of \<open>sep\<close> only.\<close>

fun SplitN2Acc :: "string \<Rightarrow> string \<Rightarrow> string \<Rightarrow> string list" where
  "SplitN2Acc sep cur [] = [cur]"
| "SplitN2Acc sep cur (c # cs) =
     (if sep \<noteq> [] \<and> take (length sep) (c # cs) = sep
      then [cur, drop (length sep) (c # cs)]
      else SplitN2Acc sep (cur @ [c]) cs)"

definition SplitN2 :: "string \<Rightarrow> string \<Rightarrow> string list" where
  "SplitN2 s sep = SplitN2Acc sep [] s"

definition HasPrefix :: "string \<Rightarrow> string \<Rightarrow> bool" where
  "HasPrefix s p = (take (length p) s = p)"

subsection \<open>White space: \<open>strings.Fields\<close>, \<open>strings.TrimSpace\<close>, \<open>strings.Trim\<close>\<close>

text \<open>
  \<open>unicode.IsSpace\<close> on the UTF-8 bytes of a string. \<open>spaceWidth s\<close> is the number of
  bytes of the white-space rune that \<open>s\<close> starts with, \<open>0\<close> when it starts with none:
  the six ASCII characters, U+0085 and U+00A0 (two bytes), U+1680, U+2000 to U+200A, U+2028,
  U+2029, U+202F, U+205F and U+3000 (three bytes). A lead byte of these encodings is never a
  continuation byte, so Go's decoder meets each of them at the start of a rune.
\<close>

definition asciiSpace :: "char \<Rightarrow> bool" where
  "asciiSpace c = (c = CHR 0x09 \<or> c = CHR 0x0A \<or> c = CHR 0x0B \<or> c = CHR 0x0C
                   \<or> c = CHR 0x0D \<or> c = CHR 0x20)"

definition space2 :: "string list" where
  "space2 = [[CHR 0xC2, CHR 0x85], [CHR 0xC2, CHR 0xA0]]"

definition space3 :: "string list" where
  "space3 = [[CHR 0xE1, CHR 0x9A, CHR 0x80],
             [CHR 0xE2, CHR 0x80, CHR 0x80], [CHR 0xE2, CHR 0x80, CHR 0x81],
             [CHR 0xE2, CHR 0x80, CHR 0x82], [CHR 0xE2, CHR 0x80, CHR 0x83],
             [CHR 0xE2, CHR 0x80, CHR 0x84], [CHR 0xE2, CHR 0x80, CHR 0x85],
             [CHR 0xE2, CHR 0x80, CHR 0x86], [CHR 0xE2, CHR 0x80, CHR 0x87],
             [CHR 0xE2, CHR 0x80, CHR 0x88], [CHR 0xE2, CHR 0x80, CHR 0x89],
             [CHR 0xE2, CHR 0x80, CHR 0x8A], [CHR 0xE2, CHR 0x80, CHR 0xA8],
             [CHR 0xE2, CHR 0x80, CHR 0xA9], [CHR 0xE2, CHR 0x80, CHR 0xAF],
             [CHR 0xE2, CHR 0x81, CHR 0x9F], [CHR 0xE3, CHR 0x80, CHR 0x80]]"

definition spaceWidth :: "string \<Rightarrow> nat" where
  "spaceWidth s =
     (case s of
        [] \<Rightarrow> 0
      | c # _ \<Rightarrow>
          if asciiSpace c then 1
          else if take 2 s \<in> set space2 then 2
          else if take 3 s \<in> set space3 then 3
          else 0)"

text \<open>
  \<open>strings.Fields\<close>: the maximal runs of bytes between white-space runes; no field is
  empty.
\<close>

definition flush :: "string \<Rightarrow> string list" where
  "flush cur = (if cur = [] then [] else [cur])"

function FieldsAcc :: "string \<Rightarrow> string \<Rightarrow> string list" where
  "FieldsAcc cur [] = flush cur"
| "FieldsAcc cur (c # cs) =
     (if 0 < spaceWidth (c # cs)
      then flush cur @ FieldsAcc [] (drop (spaceWidth (c # cs)) (c # cs))
      else FieldsAcc (cur @ [c]) cs)"
  by pat_completeness auto
termination
  by (relation "measure (\<lambda>(cur, s). length s)") auto

definition Fields :: "string \<Rightarrow> string list" where
  "Fields s = FieldsAcc [] s"

text \<open>
  \<open>strings.TrimSpace\<close>: white-space runes are removed from the front, then from the back
  (the decoder reads the last rune backwards; \<open>spaceWidthRev\<close> is \<open>spaceWidth\<close> on the
  reversed bytes).
\<close>

function TrimLeftSpace :: "string \<Rightarrow> string" where
  "TrimLeftSpace [] = []"
| "TrimLeftSpace (c # cs) =
     (if 0 < spaceWidth (c # cs)
      then TrimLeftSpace (drop (spaceWidth (c # cs)) (c # cs))
      else c # cs)"
  by pat_completeness auto
termination
  by (relation "measure length") auto

definition spaceWidthRev :: "string \<Rightarrow> nat" where
  "spaceWidthRev r =
     (case r of
        [] \<Rightarrow> 0
      | c # _ \<Rightarrow>
          if asciiSpace c then 1
          else if rev (take 2 r) \<in> set space2 then 2
          else if rev (take 3 r) \<in> set space3 then 3
          else 0)"

function TrimLeftSpaceRev :: "string \<Rightarrow> string" where
  "TrimLeftSpaceRev [] = []"
| "TrimLeftSpaceRev (c # cs) =
     (if 0 < spaceWidthRev (c # cs)
      then TrimLeftSpaceRev (drop (spaceWidthRev (c # cs)) (c # cs))
      else c # cs)"
  by pat_completeness auto
termination
  by (relation "measure length") auto

definition TrimSpace :: "string \<Rightarrow> string" where
  "TrimSpace s = rev (TrimLeftSpaceRev (rev (TrimLeftSpace s)))"

text \<open>\<open>strings.Trim(s, " ")\<close>: the cutset is the single space character.\<close>

definition TrimBlank :: "string \<Rightarrow> string" where
  "TrimBlank s = rev (dropWhile (\<lambda>c. c = CHR 0x20) (rev (dropWhile (\<lambda>c. c = CHR 0x20) s)))"

subsection \<open>\<open>strconv.ParseInt(s, 10, 64)\<close>\<close>

definition isDigit :: "char \<Rightarrow> bool" where
  "isDigit c = (48 \<le> (of_char c :: nat) \<and> (of_char c :: nat) \<le> 57)"

definition digitsValue :: "string \<Rightarrow> int" where
  "digitsValue ds = foldl (\<lambda>n c. 10 * n + ((of_char c :: int) - 48)) 0 ds"

text \<open>
  A leading sign is read off, the rest must be a non-empty run of decimal digits (base 10
  takes no underscores). A syntax error returns \<open>0\<close>; a value outside \<open>int64\<close> returns the
  nearest bound together with \<open>ErrRange\<close>.
\<close>

definition ParseInt :: "string \<Rightarrow> int64 \<times> error option" where
  "ParseInt s =
     (if s = [] then (0, Some (NumError ErrSyntax))
      else
        let neg = (hd s = CHR ''-'');
            ds = (if hd s = CHR ''+'' \<or> hd s = CHR ''-'' then tl s else s)
        in if ds = [] \<or> \<not> list_all isDigit ds then (0, Some (NumError ErrSyntax))
           else
             let un = digitsValue ds
             in if \<not> neg \<and> 2 ^ 63 \<le> un then (word_of_int (2 ^ 63 - 1), Some (NumError ErrRange))
                else if neg \<and> 2 ^ 63 < un then (word_of_int (- (2 ^ 63)), Some (NumError ErrRange))
                else (if neg then word_of_int (- un) else word_of_int un, None))"

subsection \<open>\<open>regexp.MustCompile("[0-9]+").FindAllString(line, -1)\<close>\<close>

text \<open>The maximal runs of ASCII digits, from left to right; none gives the nil slice.\<close>

fun digitRuns :: "string \<Rightarrow> string \<Rightarrow> string list" where
  "digitRuns cur [] = flush cur"
| "digitRuns cur (c # cs) =
     (if isDigit c then digitRuns (cur @ [c]) cs else flush cur @ digitRuns [] cs)"

definition FindAllDigits :: "string \<Rightarrow> string list" where
  "FindAllDigits line = digitRuns [] line"

subsection \<open>\<open>bufio\<close>: \<open>Reader.ReadString\<close> and \<open>Scanner\<close> with \<open>ScanLines\<close>\<close>

text \<open>
  \<open>ReadString('\n')\<close> on a fresh reader over \<open>s\<close>: the bytes up to and including the
  first newline, or \<open>io.EOF\<close> when there is none.
\<close>

definition ReadString :: "string \<Rightarrow> error + string" where
  "ReadString s =
     (if CHR 0x0A \<in> set s then Inr (takeWhile (\<lambda>c. c \<noteq> CHR 0x0A) s @ [CHR 0x0A])
      else Inl EOF)"

text \<open>
  The tokens \<open>scanner.Text()\<close> takes in a \<open>for scanner.Scan()\<close> loop over the data: the
  lines without their newline and without one trailing carriage return; a last line without
  newline counts when it is not empty. A line of \<open>64 * 1024\<close> bytes or more fills the
  scanner's buffer: \<open>Scan\<close> then returns false (\<open>ErrTooLong\<close>), and the loop, which never
  looks at \<open>scanner.Err()\<close>, ends there.
\<close>

definition dropCR :: "string \<Rightarrow> string" where
  "dropCR l = (if l \<noteq> [] \<and> last l = CHR 0x0D then butlast l else l)"

definition MaxScanTokenSize :: int where
  "MaxScanTokenSize = 64 * 1024"

definition ScanLines :: "string \<Rightarrow> string list" where
  "ScanLines data =
     (let parts = Split data [CHR 0x0A];
          raw = (if last parts = [] then butlast parts else parts)
      in map dropCR (takeWhile (\<lambda>l. int (length l) < MaxScanTokenSize) raw))"

subsection \<open>Indexing and slicing\<close>

text \<open>\<open>xs[i]\<close> and \<open>xs[lo:hi]\<close> on a slice whose capacity is its length.\<close>

definition index :: "'a list \<Rightarrow> int \<Rightarrow> panic + 'a" where
  "index xs i = (if 0 \<le> i \<and> i < int (length xs) then Inr (xs ! nat i) else Inl IndexOutOfRange)"

definition subslice :: "'a list \<Rightarrow> int \<Rightarrow> int \<Rightarrow> panic + 'a list" where
  "subslice xs lo hi =
     (if 0 \<le> lo \<and> lo \<le> hi \<and> hi \<le> int (length xs)
      then Inr (take (nat (hi - lo)) (drop (nat lo) xs))
      else Inl SliceBoundsOutOfRange)"

abbreviation nl :: char where "nl \<equiv> CHR 0x0A"
abbreviation tab :: char where "tab \<equiv> CHR 0x09"
abbreviation quote :: char where "quote \<equiv> CHR 0x27"
abbreviation dquote :: char where "dquote \<equiv> CHR 0x22"

section \<open>commit.go\<close>

subsection \<open>Commits and their repository\<close>

type_synonym sha1 = string

record Signature =
  Name :: string
  Email :: string

text \<open>
  Modelled from the spec: the declaration of \<open>SubModule\<close> is not among the sources; the
  spec gives it as \<open>{path, url}\<close>, and \<open>GetSubModules\<close> fills it in that order.
\<close>

record SubModule =
  path :: string
  url :: string

text \<open>
  Modelled from the spec: \<open>objectCache\<close> is not among the sources; it is a mapping from keys
  to the stored objects with \<open>Set\<close> and \<open>Get\<close>.
\<close>

type_synonym objectCache = "string \<rightharpoonup> SubModule"

text \<open>
  Modelled from the spec: \<open>Repository\<close> and its object store are not among the sources.
  The store maps a commit id to the data of that commit, and a commit id and a path to what
  reading the blob at that path gives.
\<close>

record CommitObject =
  objAuthor :: "Signature option"
  objCommitter :: "Signature option"
  objMessage :: string
  objParents :: "sha1 list"

record Repository =
  Path :: string
  objects :: "sha1 \<rightharpoonup> CommitObject"
  blobs :: "sha1 \<Rightarrow> string \<rightharpoonup> (error + string)"

record Commit =
  repo :: Repository
  ID :: sha1
  Author :: "Signature option"
  Committer :: "Signature option"
  CommitMessage :: string
  parents :: "sha1 list"
  submoduleCache :: "objectCache option"

text \<open>
  Modelled from the spec: \<open>Repository.getCommit\<close> is not among the sources. It is the full
  commit lookup of the spec: the stored commit under the requested id, \<open>NotFound\<close> when the
  store has none.
\<close>

definition getCommit :: "Repository \<Rightarrow> sha1 \<Rightarrow> Commit outcome" where
  "getCommit r oid =
     (case objects r oid of
        None \<Rightarrow> Fails (ErrNotExist oid [])
      | Some ob \<Rightarrow>
          Returns \<lparr>repo = r, ID = oid, Author = objAuthor ob, Committer = objCommitter ob,
                   CommitMessage = objMessage ob, parents = objParents ob,
                   submoduleCache = None\<rparr>)"

text \<open>
  Modelled from the spec: \<open>GetTreeEntryByPath\<close> and \<open>Blob.Data\<close> are not among the
  sources. The lookup fails with \<open>NotFound\<close> when the commit has no entry at the path;
  reading the blob gives its bytes or an error.
\<close>

definition GetTreeEntryByPath :: "Commit \<Rightarrow> string \<Rightarrow> error + (error + string)" where
  "GetTreeEntryByPath c relpath =
     (case blobs (repo c) (ID c) relpath of
        None \<Rightarrow> Inl (ErrNotExist [] relpath)
      | Some entry \<Rightarrow> Inr entry)"

definition Data :: "(error + string) \<Rightarrow> error + string" where
  "Data entry = entry"

subsection \<open>Parents\<close>

definition ParentID :: "Commit \<Rightarrow> go_int \<Rightarrow> sha1 outcome" where
  "ParentID c n =
     (if sint n \<ge> int (length (parents c)) then Fails (ErrNotExist [] [])
      else (case index (parents c) (sint n) of
              Inl p \<Rightarrow> Panics p
            | Inr oid \<Rightarrow> Returns oid))"

definition Parent :: "Commit \<Rightarrow> go_int \<Rightarrow> Commit outcome" where
  "Parent c n =
     (case ParentID c n of
        Panics p \<Rightarrow> Panics p
      | Fails err \<Rightarrow> Fails err
      | Returns oid \<Rightarrow>
          (case getCommit (repo c) oid of
             Panics p \<Rightarrow> Panics p
           | Fails err \<Rightarrow> Fails err
           | Returns parent \<Rightarrow> Returns parent))"

definition ParentCount :: "Commit \<Rightarrow> int" where
  "ParentCount c = int (length (parents c))"

subsection \<open>Submodules\<close>

text \<open>
  The loop of \<open>GetSubModules\<close> over the scanned lines, with its three variables
  \<open>ismodule\<close>, \<open>path\<close> and the cache being filled. \<open>fields[1]\<close> panics on a
  \<open>path\<close> or \<open>url\<close> line without \<open>=\<close>. The loop fills the cache in place, so the
  result is the panic, if any, together with the cache as it is when the loop ends.
\<close>

fun scanModules :: "bool \<Rightarrow> string \<Rightarrow> objectCache \<Rightarrow> string list \<Rightarrow> panic option \<times> objectCache" where
  "scanModules ismodule p cache [] = (None, cache)"
| "scanModules ismodule p cache (text # rest) =
     (if HasPrefix text ''[submodule'' then scanModules True p cache rest
      else if ismodule then
        (let fields = Split text ''=''
         in case index fields 0 of
              Inl e \<Rightarrow> (Some e, cache)
            | Inr f0 \<Rightarrow>
                let k = TrimSpace f0
                in if k = ''path'' then
                     (case index fields 1 of
                        Inl e \<Rightarrow> (Some e, cache)
                      | Inr f1 \<Rightarrow> scanModules ismodule (TrimSpace f1) cache rest)
                   else if k = ''url'' then
                     (case index fields 1 of
                        Inl e \<Rightarrow> (Some e, cache)
                      | Inr f1 \<Rightarrow>
                          scanModules False p
                            (cache(p \<mapsto> \<lparr>path = p, url = TrimSpace f1\<rparr>)) rest)
                   else scanModules ismodule p cache rest)
      else scanModules ismodule p cache rest)"

text \<open>
  \<open>GetSubModules\<close> reads and writes the commit's \<open>submoduleCache\<close>: the commit is passed
  in and returned. The cache is assigned to the commit before the loop runs, so the commit
  holds it afterwards whether the loop ends or panics.
\<close>

definition GetSubModules :: "Commit \<Rightarrow> objectCache outcome \<times> Commit" where
  "GetSubModules c =
     (case submoduleCache c of
        Some cache \<Rightarrow> (Returns cache, c)
      | None \<Rightarrow>
          (case GetTreeEntryByPath c ''.gitmodules'' of
             Inl err \<Rightarrow> (Fails err, c)
           | Inr entry \<Rightarrow>
               (case Data entry of
                  Inl err \<Rightarrow> (Fails err, c)
                | Inr rd \<Rightarrow>
                    (case scanModules False [] Map.empty (ScanLines rd) of
                       (Some p, cache) \<Rightarrow> (Panics p, c\<lparr>submoduleCache := Some cache\<rparr>)
                     | (None, cache) \<Rightarrow> (Returns cache, c\<lparr>submoduleCache := Some cache\<rparr>)))))"

text \<open>The result \<open>(nil, nil)\<close> of \<open>GetSubModule\<close> is \<open>Returns None\<close>.\<close>

definition GetSubModule :: "Commit \<Rightarrow> string \<Rightarrow> SubModule option outcome \<times> Commit" where
  "GetSubModule c entryname =
     (case GetSubModules c of
        (Panics p, c') \<Rightarrow> (Panics p, c')
      | (Fails err, c') \<Rightarrow> (Fails err, c')
      | (Returns modules, c') \<Rightarrow>
          (case modules entryname of
             Some module \<Rightarrow> (Returns (Some module), c')
           | None \<Rightarrow> (Returns None, c')))"

subsection \<open>File status of a commit\<close>

record CommitFileStatus =
  Added :: "string list"
  Removed :: "string list"
  Modified :: "string list"

definition NewCommitFileStatus :: CommitFileStatus where
  "NewCommitFileStatus = \<lparr>Added = [], Removed = [], Modified = []\<rparr>"

text \<open>
  The body of the scanning loop for one line \<open>scanner.Text()\<close>: \<open>continue\<close> on fewer
  than two fields, then the switch on the byte \<open>fields[0][0]\<close>.
\<close>

definition classifyLine :: "CommitFileStatus \<Rightarrow> string \<Rightarrow> panic + CommitFileStatus" where
  "classifyLine fileStatus text =
     (let fields = Fields text
      in if length fields < 2 then Inr fileStatus
         else
           (case index fields 0 of
              Inl e \<Rightarrow> Inl e
            | Inr f0 \<Rightarrow>
                (case index f0 0 of
                   Inl e \<Rightarrow> Inl e
                 | Inr code \<Rightarrow>
                     (case index fields 1 of
                        Inl e \<Rightarrow> Inl e
                      | Inr f1 \<Rightarrow>
                          if code = CHR ''A'' then Inr (fileStatus\<lparr>Added := Added fileStatus @ [f1]\<rparr>)
                          else if code = CHR ''D'' then
                            Inr (fileStatus\<lparr>Removed := Removed fileStatus @ [f1]\<rparr>)
                          else if code = CHR ''M'' then
                            Inr (fileStatus\<lparr>Modified := Modified fileStatus @ [f1]\<rparr>)
                          else Inr fileStatus))))"

fun scanStatus :: "CommitFileStatus \<Rightarrow> string list \<Rightarrow> panic + CommitFileStatus" where
  "scanStatus fileStatus [] = Inr fileStatus"
| "scanStatus fileStatus (text # rest) =
     (case classifyLine fileStatus text of
        Inl e \<Rightarrow> Inl e
      | Inr fileStatus' \<Rightarrow> scanStatus fileStatus' rest)"

text \<open>
  Modelled from the spec: \<open>concatenateError\<close> is not among the sources; it attaches the
  captured diagnostic text, when there is any, to the failure.
\<close>

definition concatenateError :: "error \<Rightarrow> string \<Rightarrow> error" where
  "concatenateError err stderr = (if length stderr = 0 then err else ConcatenatedError err stderr)"

text \<open>
  \<open>RunInDirPipeline\<close> writes the report into the pipe that the scanning goroutine reads.
  What the model takes from one run: the lines the scanner takes from the pipe one after the
  other, the text captured on stderr, and the error of the run; the caller goes on when the
  run is over and the goroutine has signalled \<open>done\<close>.
\<close>

type_synonym pipeline = "string \<Rightarrow> string list \<Rightarrow> string list \<times> string \<times> error option"

definition fileStatusCmd :: "string \<Rightarrow> string list" where
  "fileStatusCmd commitID =
     [''log'', ''-1'', ''--name-status'', ''--pretty=format:'' @ [quote, quote], commitID]"

definition GetCommitFileStatus :: "pipeline \<Rightarrow> string \<Rightarrow> string \<Rightarrow> CommitFileStatus outcome" where
  "GetCommitFileStatus RunInDirPipeline repoPath commitID =
     (case RunInDirPipeline repoPath (fileStatusCmd commitID) of
        (lines, stderr, err) \<Rightarrow>
          (case scanStatus NewCommitFileStatus lines of
             Inl p \<Rightarrow> Panics p
           | Inr fileStatus \<Rightarrow>
               (case err of
                  Some e \<Rightarrow> Fails (concatenateError e stderr)
                | None \<Rightarrow> Returns fileStatus)))"

definition FileStatus :: "pipeline \<Rightarrow> Commit \<Rightarrow> CommitFileStatus outcome" where
  "FileStatus RunInDirPipeline c = GetCommitFileStatus RunInDirPipeline (Path (repo c)) (ID c)"

subsection \<open>Commits per collaborator and date\<close>

record CommitsPerUser =
  NumCommits :: int64
  Date :: string
  User :: string

record CommitsInfo =
  Info :: "CommitsPerUser list"
  Total :: int64

text \<open>
  The loop over the lines: the error of \<open>ParseInt\<close> is dropped and the value it returned
  is used; \<open>info[1]\<close> panics on a line without \<open>:\<close>.
\<close>

fun collabLines :: "string \<Rightarrow> CommitsInfo \<Rightarrow> string list \<Rightarrow> panic + CommitsInfo" where
  "collabLines user commits [] = Inr commits"
| "collabLines user commits (line # rest) =
     (let info = SplitN2 line '':''
      in case index info 0 of
           Inl e \<Rightarrow> Inl e
         | Inr i0 \<Rightarrow>
             let numcommits = fst (ParseInt (TrimSpace i0))
             in case index info 1 of
                  Inl e \<Rightarrow> Inl e
                | Inr i1 \<Rightarrow>
                    collabLines user
                      \<lparr>Info = Info commits @ [\<lparr>NumCommits = numcommits, Date = i1, User = user\<rparr>],
                       Total = Total commits + numcommits\<rparr> rest)"

definition collabCmd :: "string \<Rightarrow> string list" where
  "collabCmd user =
     [''log'', ''--author='' @ [quote] @ user @ [quote], ''| grep Date '',
      ''| awk '' @ [quote] @ ''{print'' @ [dquote] @ '':'' @ [dquote] @ ''$4''
        @ [dquote] @ ''-'' @ [dquote] @ ''$3'' @ [dquote] @ ''-'' @ [dquote] @ ''$6}''
        @ [quote],
      ''| uniq -c'']"

definition commitsCountPerCollab :: "runner \<Rightarrow> string \<Rightarrow> string \<Rightarrow> CommitsInfo outcome" where
  "commitsCountPerCollab RunPipesInDir repoPath user0 =
     (case RunPipesInDir repoPath (collabCmd user0) of
        (stdout, Some err) \<Rightarrow> Fails err
      | (stdout, None) \<Rightarrow>
          let user = (if user0 = [] then ''all'' else user0);
              commits = \<lparr>Info = [], Total = 0\<rparr>;
              lines = butlast (Split stdout [nl])
          in if length lines > 0 then
               (case collabLines user commits lines of
                  Inl p \<Rightarrow> Panics p
                | Inr commits' \<Rightarrow> Returns commits')
             else
               Returns \<lparr>Info = Info commits @ [\<lparr>NumCommits = 0, Date = ''00-000-0000'', User = user\<rparr>],
                        Total = 0\<rparr>)"

definition CommitsCountPerCollab :: "runner \<Rightarrow> Commit \<Rightarrow> string \<Rightarrow> CommitsInfo outcome" where
  "CommitsCountPerCollab RunPipesInDir c user = commitsCountPerCollab RunPipesInDir (Path (repo c)) user"

subsection \<open>Insertions and deletions per user\<close>

record StatsUser =
  Insertions :: int64
  Deletions :: int64
  StatsAuthor :: string
  Files :: int

text \<open>
  The body of the loop for one line. The variables \<open>insertions\<close>, \<open>deletions\<close> and the
  function's \<open>err\<close> (assigned by both \<open>ParseInt\<close> calls, the second one last) are the
  state.
\<close>

definition numStatLine :: "int64 \<times> int64 \<times> error option \<Rightarrow> string \<Rightarrow> int64 \<times> int64 \<times> error option" where
  "numStatLine st line =
     (case st of
        (insertions, deletions, err) \<Rightarrow>
          let numeros = FindAllDigits line
          in if length numeros = 2 then
               (case ParseInt (TrimSpace (numeros ! 0)) of
                  (ins0, err1) \<Rightarrow>
                    let ins = (if err1 \<noteq> None then 0 else ins0)
                    in case ParseInt (TrimSpace (numeros ! 1)) of
                         (del0, err2) \<Rightarrow>
                           let del = (if err2 \<noteq> None then 0 else del0)
                           in (insertions + ins, deletions + del, err2))
             else (insertions + 0, deletions + 0, err))"

text \<open>
  \<open>numStatCommitsPerUser\<close> returns \<open>(nil, err)\<close> when the run fails and otherwise the
  pair \<open>(st, err)\<close> with the last \<open>err\<close> of the loop. The field \<open>Author\<close> of
  \<open>StatsUser\<close> is \<open>StatsAuthor\<close> here (\<open>Commit\<close> has a field of that name).
\<close>

definition numStatCmd :: "string \<Rightarrow> string list" where
  "numStatCmd user =
     [''log'', ''--numstat'', ''--pretty=tformat:'', ''--author='' @ user, ''--until=now'']"

definition numStatCommitsPerUser :: "runner \<Rightarrow> string \<Rightarrow> string \<Rightarrow> StatsUser option \<times> error option" where
  "numStatCommitsPerUser RunInDir user repoPath =
     (case RunInDir repoPath (numStatCmd user) of
        (stdout, Some err) \<Rightarrow> (None, Some err)
      | (stdout, None) \<Rightarrow>
          let lines = butlast (Split stdout [nl])
          in case foldl numStatLine (0, 0, None) lines of
               (insertions, deletions, err) \<Rightarrow>
                 (Some \<lparr>Insertions = insertions, Deletions = deletions, StatsAuthor = user,
                        Files = int (length lines)\<rparr>, err))"

definition NumStatCommitsPerUser :: "runner \<Rightarrow> Commit \<Rightarrow> string \<Rightarrow> StatsUser option \<times> error option" where
  "NumStatCommitsPerUser RunInDir c user = numStatCommitsPerUser RunInDir user (Path (repo c))"

section \<open>The code search\<close>

record Match =
  CommitID :: string
  MatchPath :: string
  Content :: string

record MatchesResults =
  NumberMatches :: int
  Results :: "Match list"

record RepoSearchOptions =
  Keyword :: string
  OwnerID :: int64
  OrderBy :: string
  Page :: go_int
  PageSize :: go_int

text \<open>
  \<open>NumberMatches\<close> holds \<open>int64(len(...) - 1)\<close>, a length minus one: it is given as an
  integer. The field \<open>Path\<close> of \<open>Match\<close> is \<open>MatchPath\<close> here (\<open>Repository\<close> has a
  field of that name).
\<close>

definition countCmd :: "string \<Rightarrow> string list" where
  "countCmd keyword =
     [''rev-list'', ''--all'', ''| xargs git grep -F -c -I '' @ [quote] @ keyword @ [quote]]"

definition getNumberOfCodeMatches :: "runner \<Rightarrow> string \<Rightarrow> string \<Rightarrow> int \<times> error option" where
  "getNumberOfCodeMatches RunPipesInDir repoPath keyword =
     (case RunPipesInDir repoPath (countCmd keyword) of
        (stdout, err) \<Rightarrow>
          if int (length stdout) \<le> 0 then (0, None)
          else (int (length (Split stdout [nl])) - 1, err))"

definition GetNumberOfCodeMatches :: "runner \<Rightarrow> Repository \<Rightarrow> string \<Rightarrow> int \<times> error option" where
  "GetNumberOfCodeMatches RunPipesInDir r keyword =
     getNumberOfCodeMatches RunPipesInDir (Path r) keyword"

text \<open>
  The loop over the selected blocks. It ends in a panic (\<open>info[1]\<close>), in the early
  \<open>return nil, err\<close> of a header that cannot be read, or with the matches collected.
\<close>

fun parseBlocks :: "Match list \<Rightarrow> string list \<Rightarrow> panic + (error + Match list)" where
  "parseBlocks matches [] = Inr (Inr matches)"
| "parseBlocks matches (result # rest) =
     (case ReadString result of
        Inl err \<Rightarrow> Inr (Inl err)
      | Inr header \<Rightarrow>
          let info = Split header '':''
          in case index info 0 of
               Inl e \<Rightarrow> Inl e
             | Inr i0 \<Rightarrow>
                 (case index info 1 of
                    Inl e \<Rightarrow> Inl e
                  | Inr i1 \<Rightarrow>
                      parseBlocks
                        (matches @ [\<lparr>CommitID = i0, MatchPath = TrimBlank i1, Content = result\<rparr>])
                        rest))"

text \<open>\<open>getRangeOfMatches\<close> returns the pair \<open>(matches, err)\<close>, or panics.\<close>

definition fetchCmd :: "RepoSearchOptions \<Rightarrow> string list" where
  "fetchCmd opts =
     [''rev-list'', ''--all'', OrderBy opts,
      ''| xargs git grep -F -I -i -n --no-color --full-name --break --heading -B 2 -A 2 ''
        @ [quote] @ Keyword opts @ [quote]]"

definition getRangeOfMatches :: "runner \<Rightarrow> string \<Rightarrow> RepoSearchOptions \<Rightarrow> panic + (Match list \<times> error option)" where
  "getRangeOfMatches RunPipesInDir repoPath opts =
     (case RunPipesInDir repoPath (fetchCmd opts) of
        (stdout, err) \<Rightarrow>
          if int (length stdout) \<le> 0 then Inr ([], None)
          else
            let results = Split stdout [nl, nl];
                limit = (if sint (Page opts * PageSize opts) < int (length results)
                         then sint (Page opts * PageSize opts)
                         else int (length results))
            in case subslice results (sint ((Page opts - 1) * PageSize opts)) limit of
                 Inl p \<Rightarrow> Inl p
               | Inr results' \<Rightarrow>
                   (case parseBlocks [] results' of
                      Inl p \<Rightarrow> Inl p
                    | Inr (Inl err') \<Rightarrow> Inr ([], Some err')
                    | Inr (Inr matches) \<Rightarrow> Inr (matches, err)))"

definition GetRangeOfMatches :: "runner \<Rightarrow> Repository \<Rightarrow> RepoSearchOptions \<Rightarrow> panic + (Match list \<times> error option)" where
  "GetRangeOfMatches RunPipesInDir r opts = getRangeOfMatches RunPipesInDir (Path r) opts"

definition ShearchMatchesThisRepo :: "runner \<Rightarrow> Repository \<Rightarrow> RepoSearchOptions \<Rightarrow> MatchesResults outcome" where
  "ShearchMatchesThisRepo RunPipesInDir r opts =
     (case GetNumberOfCodeMatches RunPipesInDir r (Keyword opts) of
        (n, Some err) \<Rightarrow> Fails err
      | (n, None) \<Rightarrow>
          (case GetRangeOfMatches RunPipesInDir r opts of
             Inl p \<Rightarrow> Panics p
           | Inr (ms, Some err) \<Rightarrow> Fails err
           | Inr (ms, None) \<Rightarrow> Returns \<lparr>NumberMatches = n, Results = ms\<rparr>))"

section \<open>Notions used to state the properties\<close>

text \<open>
  The header of a block (its first line, up to the first newline) contains a colon.
\<close>

definition headerHasColon :: "string \<Rightarrow> bool" where
  "headerHasColon b = (CHR '':'' \<in> set (takeWhile (\<lambda>c. c \<noteq> nl) b))"

text \<open>
  A line of the name-status report has at least two fields and its first field starts with
  the byte \<open>code\<close>; the second fields of the lines of a report that do, in their order.
\<close>

definition hasStatus :: "char \<Rightarrow> string \<Rightarrow> bool" where
  "hasStatus code line = (2 \<le> length (Fields line) \<and> take 1 (Fields line ! 0) = [code])"

definition pathsWithStatus :: "char \<Rightarrow> string list \<Rightarrow> string list" where
  "pathsWithStatus code lines = map (\<lambda>line. Fields line ! 1) (filter (hasStatus code) lines)"

text \<open>
  What one line of the numstat output adds to the insertions and to the deletions, in the
  words of the spec: with exactly two numeric runs on the line their values, a run that
  \<open>ParseInt\<close> rejects counting as zero; zero for both with any other number of runs.
\<close>

definition parsedOrZero :: "string \<Rightarrow> int64" where
  "parsedOrZero s = (case ParseInt (TrimSpace s) of (v, None) \<Rightarrow> v | (v, Some e) \<Rightarrow> 0)"

definition lineInsertions :: "string \<Rightarrow> int64" where
  "lineInsertions line =
     (if length (FindAllDigits line) = 2 then parsedOrZero (FindAllDigits line ! 0) else 0)"

definition lineDeletions :: "string \<Rightarrow> int64" where
  "lineDeletions line =
     (if length (FindAllDigits line) = 2 then parsedOrZero (FindAllDigits line ! 1) else 0)"

text \<open>
  The row of the histogram for one line \<open>count:date\<close> of the output: the count is what
  \<open>ParseInt\<close> returns for the trimmed text before the first colon, the date is the text
  after it.
\<close>

definition countField :: "string \<Rightarrow> string" where
  "countField line = takeWhile (\<lambda>c. c \<noteq> CHR '':'') line"

definition dateField :: "string \<Rightarrow> string" where
  "dateField line = tl (dropWhile (\<lambda>c. c \<noteq> CHR '':'') line)"



text \<open>
  A block the loop of \<open>getRangeOfMatches\<close> can parse: it has a first line ending in a
  newline, with a colon in it. The match the loop builds from such a block.
\<close>

definition wellFormed :: "string \<Rightarrow> bool" where
  "wellFormed b = (nl \<in> set b \<and> headerHasColon b)"

definition blockMatch :: "string \<Rightarrow> Match" where
  "blockMatch b =
     (let header = takeWhile (\<lambda>c. c \<noteq> nl) b @ [nl]
      in \<lparr>CommitID = hd (Split header '':''),
          MatchPath = TrimBlank (Split header '':'' ! 1),
          Content = b\<rparr>)"

text \<open>
  The window of the spec over the list of blocks,
  \<open>[(page - 1) * pageSize, min (page * pageSize) totalBlocks)\<close>.
\<close>

definition pageWindow :: "int \<Rightarrow> int \<Rightarrow> 'a list \<Rightarrow> 'a list" where
  "pageWindow page pageSize blocks =
     (let lo = (page - 1) * pageSize;
          hi = min (page * pageSize) (int (length blocks))
      in take (nat (hi - lo)) (drop (nat lo) blocks))"

section \<open>Sample values\<close>

text \<open>
  A repository whose store holds the commit \<open>p1\<close> and not the commit \<open>p2\<close>, and a merge
  commit with these two parents.
\<close>

definition sampleRepo :: Repository where
  "sampleRepo =
     \<lparr>Path = ''/repo'',
      objects = [''p1'' \<mapsto> \<lparr>objAuthor = Some \<lparr>Name = ''ann'', Email = ''ann@example.com''\<rparr>,
                             objCommitter = None, objMessage = ''first'', objParents = []\<rparr>],
      blobs = (\<lambda>c p. None)\<rparr>"

definition sampleCommit :: Commit where
  "sampleCommit =
     \<lparr>repo = sampleRepo, ID = ''c1'', Author = None, Committer = None,
      CommitMessage = ''merge'', parents = [''p1'', ''p2''], submoduleCache = None\<rparr>"

text \<open>
  A commit whose tree has the given bytes as its \<open>.gitmodules\<close> blob; a blob with one
  submodule section; a blob without any.
\<close>

definition commitWithModules :: "string \<Rightarrow> Commit" where
  "commitWithModules data =
     \<lparr>repo = \<lparr>Path = ''/repo'', objects = Map.empty,
              blobs = (\<lambda>c p. if c = ''c1'' \<and> p = ''.gitmodules'' then Some (Inr data) else None)\<rparr>,
      ID = ''c1'', Author = None, Committer = None, CommitMessage = ''add module'',
      parents = [], submoduleCache = None\<rparr>"

definition oneModule :: string where
  "oneModule = ''[submodule '' @ [dquote] @ ''x'' @ [dquote] @ '']'' @ [nl]
               @ [tab] @ ''path = libs/x'' @ [nl]
               @ [tab] @ ''url = https://example.com/x.git'' @ [nl]"

definition noModule :: string where
  "noModule = ''[core]'' @ [nl] @ [tab] @ ''bare = false'' @ [nl]"

text \<open>
  Two numstat outputs of two lines: the one of the spec, with a digit in each file name, and
  one with file names free of digits.
\<close>

definition numstatWithDigits :: string where
  "numstatWithDigits = ''10'' @ [tab] @ ''2'' @ [tab] @ ''file1'' @ [nl]
                       @ ''3'' @ [tab] @ ''1'' @ [tab] @ ''file2'' @ [nl]"

definition numstatWithoutDigits :: string where
  "numstatWithoutDigits = ''10'' @ [tab] @ ''2'' @ [tab] @ ''file'' @ [nl]
                          @ ''3'' @ [tab] @ ''1'' @ [tab] @ ''other'' @ [nl]"


text \<open>
  A fetch-phase output of two blocks, search options for a page, and two runners for the two
  phases of a search: with the first the count phase reports two files, with the second one
  file (the count phase is case-sensitive, the fetch phase is not).
\<close>

definition twoBlocks :: string where
  "twoBlocks = ''c1:a.go'' @ [nl] @ ''1:foo'' @ [nl, nl] @ ''c2:b.go'' @ [nl] @ ''7:Foo'' @ [nl]"

definition searchOpts :: "go_int \<Rightarrow> go_int \<Rightarrow> RepoSearchOptions" where
  "searchOpts page pageSize =
     \<lparr>Keyword = ''foo'', OwnerID = 0, OrderBy = ''--date-order'', Page = page, PageSize = pageSize\<rparr>"

definition agreeingRunner :: runner where
  "agreeingRunner dir args =
     (if args = countCmd ''foo'' then (''c1:a.go:1'' @ [nl] @ ''c2:b.go:1'' @ [nl], None)
      else (twoBlocks, None))"

definition twoPhaseRunner :: runner where
  "twoPhaseRunner dir args =
     (if args = countCmd ''foo'' then (''c1:a.go:1'' @ [nl], None) else (twoBlocks, None))"

section \<open>Facts about the library functions\<close>

lemma SplitAcc_nonempty: "SplitAcc sep cur s \<noteq> []"
  by (induction sep cur s rule: SplitAcc.induct) auto

lemma Split_nonempty: "Split s sep \<noteq> []"
  by (simp add: Split_def SplitAcc_nonempty)

lemma length_SplitAcc_char:
  "length (SplitAcc [d] cur s) = Suc (length (filter (\<lambda>c. c = d) s))"
  by (induction s arbitrary: cur) auto

lemma length_Split_char:
  "length (Split s [d]) = Suc (length (filter (\<lambda>c. c = d) s))"
  by (simp add: Split_def length_SplitAcc_char)

section \<open>The code search: empty output\<close>

text \<open>
  Claim C5. When the history-wide search of a keyword gives empty raw output,
  \<open>GetNumberOfCodeMatches\<close> returns \<open>(0, nil)\<close> and \<open>GetRangeOfMatches\<close> returns
  \<open>(nil, nil)\<close>, a result and not an error. When the output of the count phase is not empty,
  the count is the number of pieces that splitting it at newlines gives, minus one (the
  piece after the last newline): that is the number of newline characters of the output.
\<close>

theorem C5_empty_output:
  "(fst (RunPipesInDir (Path r) (countCmd keyword)) = [] \<longrightarrow>
      GetNumberOfCodeMatches RunPipesInDir r keyword = (0, None)) \<and>
   (fst (RunPipesInDir (Path r) (fetchCmd opts)) = [] \<longrightarrow>
      GetRangeOfMatches RunPipesInDir r opts = Inr ([], None)) \<and>
   (fst (RunPipesInDir (Path r) (countCmd keyword')) \<noteq> [] \<longrightarrow>
      GetNumberOfCodeMatches RunPipesInDir r keyword' =
        (int (length (Split (fst (RunPipesInDir (Path r) (countCmd keyword'))) [nl])) - 1,
         snd (RunPipesInDir (Path r) (countCmd keyword'))) \<and>
      fst (GetNumberOfCodeMatches RunPipesInDir r keyword') =
        int (length (filter (\<lambda>c. c = nl) (fst (RunPipesInDir (Path r) (countCmd keyword'))))))"
  by (auto simp: GetNumberOfCodeMatches_def getNumberOfCodeMatches_def GetRangeOfMatches_def
      getRangeOfMatches_def length_Split_char split: prod.splits)

theorem C5_empty_output_witness:
  "GetNumberOfCodeMatches
     (\<lambda>dir args. if args = countCmd ''needle'' then (''c1:a.go:2'' @ [nl] @ ''c2:a.go:1'' @ [nl], None)
                  else ([], None))
     \<lparr>Path = ''/repo'', objects = Map.empty, blobs = (\<lambda>c p. None)\<rparr> ''absent'' = (0, None) \<and>
   GetRangeOfMatches
     (\<lambda>dir args. if args = countCmd ''needle'' then (''c1:a.go:2'' @ [nl] @ ''c2:a.go:1'' @ [nl], None)
                  else ([], None))
     \<lparr>Path = ''/repo'', objects = Map.empty, blobs = (\<lambda>c p. None)\<rparr>
     \<lparr>Keyword = ''absent'', OwnerID = 0, OrderBy = [], Page = 1, PageSize = 10\<rparr> = Inr ([], None) \<and>
   GetNumberOfCodeMatches
     (\<lambda>dir args. if args = countCmd ''needle'' then (''c1:a.go:2'' @ [nl] @ ''c2:a.go:1'' @ [nl], None)
                  else ([], None))
     \<lparr>Path = ''/repo'', objects = Map.empty, blobs = (\<lambda>c p. None)\<rparr> ''needle'' = (2, None)"
  using C5_empty_output
    [of "\<lambda>dir args. if args = countCmd ''needle'' then (''c1:a.go:2'' @ [nl] @ ''c2:a.go:1'' @ [nl], None)
                       else ([], None)"
        "\<lparr>Path = ''/repo'', objects = Map.empty, blobs = (\<lambda>c p. None)\<rparr>"
        "''absent''"
        "\<lparr>Keyword = ''absent'', OwnerID = 0, OrderBy = [], Page = 1, PageSize = 10\<rparr>"
        "''needle''"]
  by (simp add: countCmd_def fetchCmd_def Split_def)

text \<open>
  Claim C9. Both phases test the raw output for emptiness before they look at the error of
  the run. When the process fails and has written nothing, \<open>GetNumberOfCodeMatches\<close>
  returns \<open>(0, nil)\<close> and \<open>GetRangeOfMatches\<close> returns \<open>(nil, nil)\<close>: the error is
  dropped, and the composed search returns what it returns when nothing matches.
\<close>

theorem C9_failure_with_empty_output:
  "(RunPipesInDir (Path r) (countCmd keyword) = ([], Some e) \<longrightarrow>
      GetNumberOfCodeMatches RunPipesInDir r keyword = (0, None)) \<and>
   (RunPipesInDir (Path r) (fetchCmd opts) = ([], Some e') \<longrightarrow>
      GetRangeOfMatches RunPipesInDir r opts = Inr ([], None)) \<and>
   (RunPipesInDir (Path r) (countCmd (Keyword opts)) = ([], Some e) \<and>
    RunPipesInDir (Path r) (fetchCmd opts) = ([], Some e') \<longrightarrow>
      ShearchMatchesThisRepo RunPipesInDir r opts = Returns \<lparr>NumberMatches = 0, Results = []\<rparr>)"
  by (simp add: ShearchMatchesThisRepo_def GetNumberOfCodeMatches_def getNumberOfCodeMatches_def
      GetRangeOfMatches_def getRangeOfMatches_def)

theorem C9_failure_with_empty_output_witness:
  "GetNumberOfCodeMatches (\<lambda>dir args. ([], Some (ExitError ''exit status 128'')))
     \<lparr>Path = ''/repo'', objects = Map.empty, blobs = (\<lambda>c p. None)\<rparr> ''needle'' = (0, None) \<and>
   GetRangeOfMatches (\<lambda>dir args. ([], Some (ExitError ''exit status 128'')))
     \<lparr>Path = ''/repo'', objects = Map.empty, blobs = (\<lambda>c p. None)\<rparr>
     \<lparr>Keyword = ''needle'', OwnerID = 0, OrderBy = [], Page = 1, PageSize = 10\<rparr> = Inr ([], None) \<and>
   ShearchMatchesThisRepo (\<lambda>dir args. ([], Some (ExitError ''exit status 128'')))
     \<lparr>Path = ''/repo'', objects = Map.empty, blobs = (\<lambda>c p. None)\<rparr>
     \<lparr>Keyword = ''needle'', OwnerID = 0, OrderBy = [], Page = 1, PageSize = 10\<rparr>
     = Returns \<lparr>NumberMatches = 0, Results = []\<rparr>"
  using C9_failure_with_empty_output
    [of "\<lambda>dir args. ([], Some (ExitError ''exit status 128''))"
        "\<lparr>Path = ''/repo'', objects = Map.empty, blobs = (\<lambda>c p. None)\<rparr>"
        "''needle''" "ExitError ''exit status 128''"
        "\<lparr>Keyword = ''needle'', OwnerID = 0, OrderBy = [], Page = 1, PageSize = 10\<rparr>"
        "ExitError ''exit status 128''"]
  by simp

lemma index_0_Split: "index (Split s sep) 0 = Inr (hd (Split s sep))"
  using Split_nonempty [of s sep] by (cases "Split s sep") (auto simp: index_def)

lemma index_1_Split_char:
  "index (Split s [d]) 1 = (if d \<in> set s then Inr (Split s [d] ! 1) else Inl IndexOutOfRange)"
proof -
  have "d \<in> set s \<longleftrightarrow> filter (\<lambda>c. c = d) s \<noteq> []"
    by (auto simp: filter_empty_conv)
  then show ?thesis
    by (auto simp: index_def length_Split_char)
qed

lemma FieldsAcc_no_empty_field: "f \<in> set (FieldsAcc cur s) \<Longrightarrow> f \<noteq> []"
  by (induction cur s rule: FieldsAcc.induct) (auto simp: flush_def split: if_splits)

lemma Fields_no_empty_field: "f \<in> set (Fields s) \<Longrightarrow> f \<noteq> []"
  unfolding Fields_def by (rule FieldsAcc_no_empty_field)

section \<open>The code search: the header of a block\<close>

text \<open>One turn of the loop over the selected blocks, by the shape of the block.\<close>

lemma parseBlocks_step:
  "parseBlocks ms (b # rest) =
     (if nl \<notin> set b then Inr (Inl EOF)
      else if \<not> headerHasColon b then Inl IndexOutOfRange
      else parseBlocks
             (ms @ [\<lparr>CommitID = hd (Split (takeWhile (\<lambda>c. c \<noteq> nl) b @ [nl]) '':''),
                     MatchPath = TrimBlank (Split (takeWhile (\<lambda>c. c \<noteq> nl) b @ [nl]) '':'' ! 1),
                     Content = b\<rparr>]) rest)"
  by (simp add: ReadString_def index_0_Split index_1_Split_char headerHasColon_def Let_def)

lemma parseBlocks_panic_cases:
  "parseBlocks ms bs = Inl p \<Longrightarrow>
     p = IndexOutOfRange \<and> (\<exists>b \<in> set bs. nl \<in> set b \<and> \<not> headerHasColon b)"
proof (induction bs arbitrary: ms)
  case Nil
  then show ?case by simp
next
  case (Cons b bs)
  then show ?case
    unfolding parseBlocks_step by (auto split: if_splits)
qed

lemma slice_panic: "subslice xs lo hi = Inl p \<Longrightarrow> p = SliceBoundsOutOfRange"
  by (auto simp: subslice_def split: if_splits)

lemma set_slice: "subslice xs lo hi = Inr ys \<Longrightarrow> set ys \<subseteq> set xs"
  by (auto simp: subslice_def split: if_splits dest: in_set_takeD in_set_dropD)

text \<open>
  Claim C10. \<open>getRangeOfMatches\<close> reads \<open>info[1]\<close> without looking at the number of
  parts the split of the header gave. A selected block whose first line ends in a newline
  and has no colon makes that access run out of bounds: a panic, not a returned error.
  Conversely the function panics there only on such a block, so the parsing of the headers
  is safe when every block that has a first line has a colon in it.
\<close>

theorem C10_header_without_colon:
  "(nl \<in> set b \<and> \<not> headerHasColon b \<longrightarrow> parseBlocks ms (b # rest) = Inl IndexOutOfRange) \<and>
   (getRangeOfMatches RunPipesInDir repoPath opts = Inl IndexOutOfRange \<longrightarrow>
      (\<exists>b' \<in> set (Split (fst (RunPipesInDir repoPath (fetchCmd opts))) [nl, nl]).
         nl \<in> set b' \<and> \<not> headerHasColon b')) \<and>
   ((\<forall>b' \<in> set bs. nl \<in> set b' \<longrightarrow> headerHasColon b') \<longrightarrow> (\<forall>p. parseBlocks ms bs \<noteq> Inl p)) \<and>
   getRangeOfMatches (\<lambda>dir args. (''abc'' @ [nl], None)) ''/repo''
     \<lparr>Keyword = ''abc'', OwnerID = 0, OrderBy = [], Page = 1, PageSize = 1\<rparr> = Inl IndexOutOfRange"
proof (intro conjI impI allI)
  assume "nl \<in> set b \<and> \<not> headerHasColon b"
  then show "parseBlocks ms (b # rest) = Inl IndexOutOfRange"
    by (subst parseBlocks_step) simp
next
  assume panic: "getRangeOfMatches RunPipesInDir repoPath opts = Inl IndexOutOfRange"
  obtain stdout err where run: "RunPipesInDir repoPath (fetchCmd opts) = (stdout, err)"
    by (cases "RunPipesInDir repoPath (fetchCmd opts)")
  from panic run obtain lo hi sel where
    sel: "subslice (Split stdout [nl, nl]) lo hi = Inr sel" and
    loop: "parseBlocks [] sel = Inl IndexOutOfRange"
    by (auto simp: getRangeOfMatches_def Let_def split: if_splits sum.splits
        dest: slice_panic)
  from parseBlocks_panic_cases [OF loop] obtain b' where
    "b' \<in> set sel" "nl \<in> set b'" "\<not> headerHasColon b'"
    by auto
  with set_slice [OF sel] run
  show "\<exists>b' \<in> set (Split (fst (RunPipesInDir repoPath (fetchCmd opts))) [nl, nl]).
          nl \<in> set b' \<and> \<not> headerHasColon b'"
    by auto
next
  fix p
  assume "\<forall>b' \<in> set bs. nl \<in> set b' \<longrightarrow> headerHasColon b'"
  then show "parseBlocks ms bs \<noteq> Inl p"
    using parseBlocks_panic_cases [of ms bs p] by blast
next
  show "getRangeOfMatches (\<lambda>dir args. (''abc'' @ [nl], None)) ''/repo''
     \<lparr>Keyword = ''abc'', OwnerID = 0, OrderBy = [], Page = 1, PageSize = 1\<rparr> = Inl IndexOutOfRange"
    by code_simp
qed

theorem C10_header_without_colon_witness:
  "parseBlocks [] [''abc'' @ [nl]] = Inl IndexOutOfRange \<and>
   (\<exists>b' \<in> set (Split (''abc'' @ [nl]) [nl, nl]). nl \<in> set b' \<and> \<not> headerHasColon b') \<and>
   parseBlocks [] [''c1:a.go'' @ [nl] @ ''1:abc''] \<noteq> Inl IndexOutOfRange"
  using C10_header_without_colon
    [of "''abc'' @ [nl]" "[]" "[]" "\<lambda>dir args. (''abc'' @ [nl], None)" "''/repo''"
        "\<lparr>Keyword = ''abc'', OwnerID = 0, OrderBy = [], Page = 1, PageSize = 1\<rparr>"
        "[''c1:a.go'' @ [nl] @ ''1:abc'']"]
  by (simp add: headerHasColon_def)

section \<open>File status of a commit\<close>

text \<open>One turn of the scanning loop never panics: a field of \<open>strings.Fields\<close> has a first byte.\<close>

lemma classifyLine_eq:
  "classifyLine st line =
     Inr (st\<lparr>Added := Added st @ pathsWithStatus CHR ''A'' [line],
             Removed := Removed st @ pathsWithStatus CHR ''D'' [line],
             Modified := Modified st @ pathsWithStatus CHR ''M'' [line]\<rparr>)"
proof (cases "length (Fields line) < 2")
  case True
  then show ?thesis
    by (simp add: classifyLine_def pathsWithStatus_def hasStatus_def)
next
  case False
  then obtain f0 f1 fs where fs: "Fields line = f0 # f1 # fs"
    by (cases "Fields line"; cases "tl (Fields line)") auto
  then have "f0 \<noteq> []"
    using Fields_no_empty_field [of f0 line] by simp
  then obtain ch r where f0: "f0 = ch # r"
    by (cases f0) auto
  show ?thesis
    by (simp add: classifyLine_def pathsWithStatus_def hasStatus_def fs f0 index_def)
qed

lemma scanStatus_eq:
  "scanStatus st lines =
     Inr (st\<lparr>Added := Added st @ pathsWithStatus CHR ''A'' lines,
             Removed := Removed st @ pathsWithStatus CHR ''D'' lines,
             Modified := Modified st @ pathsWithStatus CHR ''M'' lines\<rparr>)"
proof (induction lines arbitrary: st)
  case Nil
  then show ?case by (simp add: pathsWithStatus_def)
next
  case (Cons line rest)
  show ?case
    by (simp add: classifyLine_eq Cons.IH) (simp add: pathsWithStatus_def)
qed

text \<open>
  Claim C6 says that \<open>A\<close>, \<open>D\<close> and \<open>M\<close> append the path of the line. The code appends
  \<open>fields[1]\<close>, the second white-space separated field: of the line \<open>"A\tnew file.txt"\<close>
  it records \<open>"new"\<close>, not the path \<open>"new file.txt"\<close>.
\<close>

theorem C6_path_with_space_counterexample:
  "GetCommitFileStatus (\<lambda>dir args. ([''A'' @ [tab] @ ''new file.txt''], [], None)) ''/repo'' ''c0ffee''
     = Returns \<lparr>Added = [''new''], Removed = [], Modified = []\<rparr> \<and>
   Fields (''A'' @ [tab] @ ''new file.txt'') = [''A'', ''new'', ''file.txt'']"
  by code_simp

text \<open>
  Claim C6, amended. For every stream of lines that \<open>GetCommitFileStatus\<close> consumes (the
  run itself succeeding): each line is split into white-space separated fields; a line with
  fewer than two fields is skipped without an error; the first byte of the first field
  decides: \<open>A\<close> appends the second field of the line to \<open>Added\<close>, \<open>D\<close> to
  \<open>Removed\<close>, \<open>M\<close> to \<open>Modified\<close>, and any other first byte leaves the three lists as
  they are. The lines
  \<open>"A\tfoo.txt"\<close>, \<open>"D\tbar.txt"\<close>, \<open>"M\tbaz.txt"\<close>, \<open>"X"\<close> give
  \<open>Added = ["foo.txt"]\<close>, \<open>Removed = ["bar.txt"]\<close>, \<open>Modified = ["baz.txt"]\<close> and no
  error.
\<close>

theorem C6_file_status:
  "(RunInDirPipeline repoPath (fileStatusCmd commitID) = (lines, stderr, None) \<longrightarrow>
      GetCommitFileStatus RunInDirPipeline repoPath commitID =
        Returns \<lparr>Added = pathsWithStatus CHR ''A'' lines,
                 Removed = pathsWithStatus CHR ''D'' lines,
                 Modified = pathsWithStatus CHR ''M'' lines\<rparr>) \<and>
   (length (Fields short) < 2 \<longrightarrow> classifyLine st short = Inr st) \<and>
   (2 \<le> length (Fields other) \<and> take 1 (Fields other ! 0) \<noteq> ''A''
      \<and> take 1 (Fields other ! 0) \<noteq> ''D'' \<and> take 1 (Fields other ! 0) \<noteq> ''M'' \<longrightarrow>
      classifyLine st other = Inr st) \<and>
   GetCommitFileStatus
     (\<lambda>dir args. ([''A'' @ [tab] @ ''foo.txt'', ''D'' @ [tab] @ ''bar.txt'',
                    ''M'' @ [tab] @ ''baz.txt'', ''X''], [], None)) ''/repo'' ''c0ffee''
     = Returns \<lparr>Added = [''foo.txt''], Removed = [''bar.txt''], Modified = [''baz.txt'']\<rparr>"
proof (intro conjI impI)
  assume "RunInDirPipeline repoPath (fileStatusCmd commitID) = (lines, stderr, None)"
  then show "GetCommitFileStatus RunInDirPipeline repoPath commitID =
        Returns \<lparr>Added = pathsWithStatus CHR ''A'' lines,
                 Removed = pathsWithStatus CHR ''D'' lines,
                 Modified = pathsWithStatus CHR ''M'' lines\<rparr>"
    by (simp add: GetCommitFileStatus_def scanStatus_eq NewCommitFileStatus_def)
next
  assume "length (Fields short) < 2"
  then show "classifyLine st short = Inr st"
    by (simp add: classifyLine_def)
next
  assume "2 \<le> length (Fields other) \<and> take 1 (Fields other ! 0) \<noteq> ''A''
      \<and> take 1 (Fields other ! 0) \<noteq> ''D'' \<and> take 1 (Fields other ! 0) \<noteq> ''M''"
  then show "classifyLine st other = Inr st"
    by (simp add: classifyLine_eq pathsWithStatus_def hasStatus_def)
next
  show "GetCommitFileStatus
     (\<lambda>dir args. ([''A'' @ [tab] @ ''foo.txt'', ''D'' @ [tab] @ ''bar.txt'',
                    ''M'' @ [tab] @ ''baz.txt'', ''X''], [], None)) ''/repo'' ''c0ffee''
     = Returns \<lparr>Added = [''foo.txt''], Removed = [''bar.txt''], Modified = [''baz.txt'']\<rparr>"
    by code_simp
qed

theorem C6_file_status_witness:
  "GetCommitFileStatus
     (\<lambda>dir args. ([[quote, quote], ''M'' @ [tab] @ ''commit.go'', [], ''A  repo_search.go''],
                   [], None)) ''/repo'' ''c0ffee''
     = Returns \<lparr>Added = [''repo_search.go''], Removed = [], Modified = [''commit.go'']\<rparr> \<and>
   classifyLine \<lparr>Added = [''a''], Removed = [], Modified = []\<rparr> ''X''
     = Inr \<lparr>Added = [''a''], Removed = [], Modified = []\<rparr> \<and>
   classifyLine \<lparr>Added = [''a''], Removed = [], Modified = []\<rparr> (''R100'' @ [tab] @ ''old.go'' @ [tab] @ ''new.go'')
     = Inr \<lparr>Added = [''a''], Removed = [], Modified = []\<rparr>"
proof -
  have fields:
    "Fields [quote, quote] = [[quote, quote]]"
    "Fields (''M'' @ [tab] @ ''commit.go'') = [''M'', ''commit.go'']"
    "Fields [] = []"
    "Fields ''A  repo_search.go'' = [''A'', ''repo_search.go'']"
    "Fields ''X'' = [''X'']"
    "Fields (''R100'' @ [tab] @ ''old.go'' @ [tab] @ ''new.go'') = [''R100'', ''old.go'', ''new.go'']"
    by code_simp+
  show ?thesis
    using C6_file_status
      [of "\<lambda>dir args. ([[quote, quote], ''M'' @ [tab] @ ''commit.go'', [], ''A  repo_search.go''],
                         [], None)"
          "''/repo''" "''c0ffee''"
          "[[quote, quote], ''M'' @ [tab] @ ''commit.go'', [], ''A  repo_search.go'']" "[]"
          "''X''" "\<lparr>Added = [''a''], Removed = [], Modified = []\<rparr>"
          "''R100'' @ [tab] @ ''old.go'' @ [tab] @ ''new.go''"]
    by (simp add: pathsWithStatus_def hasStatus_def fields [simplified])
qed

section \<open>Parents of a commit\<close>

lemma ParentID_in_range:
  "0 \<le> sint n \<Longrightarrow> sint n < ParentCount c \<Longrightarrow> ParentID c n = Returns (parents c ! nat (sint n))"
  by (simp add: ParentID_def ParentCount_def index_def)

lemma ParentID_beyond:
  "ParentCount c \<le> sint n \<Longrightarrow> ParentID c n = Fails (ErrNotExist [] [])"
  by (simp add: ParentID_def ParentCount_def)

lemma Parent_lookup:
  "ParentID c n = Returns oid \<Longrightarrow> Parent c n = getCommit (repo c) oid"
  by (simp add: Parent_def split: outcome.splits)

lemma getCommit_ID: "getCommit r oid = Returns p \<Longrightarrow> ID p = oid \<and> repo p = r"
  by (auto simp: getCommit_def split: option.splits)

text \<open>An index below zero passes the only test of \<open>ParentID\<close> and panics.\<close>

lemma Parent_negative_index: "sint n < 0 \<Longrightarrow> Parent c n = Panics IndexOutOfRange"
  by (simp add: Parent_def ParentID_def index_def)

text \<open>
  Claim C8. For a commit \<open>c\<close> and an index \<open>n\<close> of its parents (from \<open>0\<close>, below
  \<open>ParentCount\<close>), \<open>Parent(n)\<close> is the lookup of \<open>c.parents[n]\<close> in the repository: a
  commit it returns has that id, and when the store holds the parent it returns the whole
  stored commit (message, author, committer and parents), not a copy of the id. For every
  \<open>n\<close> from \<open>ParentCount\<close> on, and so for \<open>n = ParentCount\<close>, \<open>Parent(n)\<close> fails with
  \<open>NotFound\<close>.
\<close>

theorem C8_parent:
  "(0 \<le> sint n \<and> sint n < ParentCount c \<longrightarrow>
      Parent c n = getCommit (repo c) (parents c ! nat (sint n)) \<and>
      (\<forall>p. Parent c n = Returns p \<longrightarrow> ID p = parents c ! nat (sint n)) \<and>
      (\<forall>ob. objects (repo c) (parents c ! nat (sint n)) = Some ob \<longrightarrow>
         (\<exists>p. Parent c n = Returns p \<and> ID p = parents c ! nat (sint n) \<and>
              parents p = objParents ob \<and> CommitMessage p = objMessage ob \<and>
              Author p = objAuthor ob \<and> Committer p = objCommitter ob))) \<and>
   (ParentCount c \<le> sint m \<longrightarrow> Parent c m = Fails (ErrNotExist [] [])) \<and>
   (sint k = ParentCount c \<longrightarrow> Parent c k = Fails (ErrNotExist [] []))"
proof (intro conjI impI allI)
  assume n: "0 \<le> sint n \<and> sint n < ParentCount c"
  then show lookup: "Parent c n = getCommit (repo c) (parents c ! nat (sint n))"
    by (simp add: Parent_lookup ParentID_in_range)
  {
    fix p
    assume "Parent c n = Returns p"
    with lookup show "ID p = parents c ! nat (sint n)"
      by (simp add: getCommit_ID)
  }
  {
    fix ob
    assume "objects (repo c) (parents c ! nat (sint n)) = Some ob"
    with lookup show "\<exists>p. Parent c n = Returns p \<and> ID p = parents c ! nat (sint n) \<and>
              parents p = objParents ob \<and> CommitMessage p = objMessage ob \<and>
              Author p = objAuthor ob \<and> Committer p = objCommitter ob"
      by (simp add: getCommit_def)
  }
next
  assume "ParentCount c \<le> sint m"
  then show "Parent c m = Fails (ErrNotExist [] [])"
    by (simp add: Parent_def ParentID_beyond)
next
  assume "sint k = ParentCount c"
  then show "Parent c k = Fails (ErrNotExist [] [])"
    by (simp add: Parent_def ParentID_beyond)
qed

theorem C8_parent_witness:
  "Parent sampleCommit 0 =
     Returns \<lparr>repo = sampleRepo, ID = ''p1'',
              Author = Some \<lparr>Name = ''ann'', Email = ''ann@example.com''\<rparr>, Committer = None,
              CommitMessage = ''first'', parents = [], submoduleCache = None\<rparr> \<and>
   Parent sampleCommit 1 = Fails (ErrNotExist ''p2'' []) \<and>
   Parent sampleCommit 7 = Fails (ErrNotExist [] []) \<and>
   Parent sampleCommit 2 = Fails (ErrNotExist [] [])"
  using C8_parent [of 0 sampleCommit 7 2] C8_parent [of 1 sampleCommit 7 2]
  by (simp add: ParentCount_def sampleCommit_def sampleRepo_def getCommit_def)

section \<open>Submodules\<close>

lemma scanModules_no_section:
  "\<forall>l \<in> set ls. \<not> HasPrefix l ''[submodule'' \<Longrightarrow> scanModules False p cache ls = (None, cache)"
  by (induction ls) auto

text \<open>
  Claim C3 says that a \<open>.gitmodules\<close> blob which exists and has no submodule section makes
  the lookup fail with \<open>NotFound\<close>. The code returns \<open>(nil, nil)\<close> there: the blob is
  parsed into an empty mapping.
\<close>

theorem C3_without_section_counterexample:
  "fst (GetSubModule (commitWithModules noModule) ''libs/x'') = Returns None \<and>
   fst (GetSubModule (commitWithModules noModule) ''libs/x'') \<noteq> Fails (ErrNotExist [] ''.gitmodules'')"
  by code_simp

text \<open>
  Claim C3, amended. For the blob with the section \<open>[submodule "x"]\<close>, the line
  \<open>path = libs/x\<close> and then the line \<open>url = https://example.com/x.git\<close>,
  \<open>GetSubModule("libs/x")\<close> returns the submodule with that path and url. When the
  commit has no \<open>.gitmodules\<close> entry, the operation fails with \<open>NotFound\<close>. When the
  blob exists and no line of it starts a submodule section, the parsed mapping is empty and
  the lookup returns \<open>(nil, nil)\<close>. A path without an entry in a successfully parsed
  mapping gives \<open>(nil, nil)\<close>, not an error.
\<close>

theorem C3_submodule_lookup:
  "fst (GetSubModule (commitWithModules oneModule) ''libs/x'')
     = Returns (Some \<lparr>path = ''libs/x'', url = ''https://example.com/x.git''\<rparr>) \<and>
   (submoduleCache c = None \<and> blobs (repo c) (ID c) ''.gitmodules'' = None \<longrightarrow>
      fst (GetSubModule c entryname) = Fails (ErrNotExist [] ''.gitmodules'')) \<and>
   (submoduleCache c' = None \<and> blobs (repo c') (ID c') ''.gitmodules'' = Some (Inr data) \<and>
    (\<forall>l \<in> set (ScanLines data). \<not> HasPrefix l ''[submodule'') \<longrightarrow>
      GetSubModules c' = (Returns Map.empty, c'\<lparr>submoduleCache := Some Map.empty\<rparr>) \<and>
      fst (GetSubModule c' entryname) = Returns None) \<and>
   (fst (GetSubModules c'') = Returns modules \<and> modules entryname = None \<longrightarrow>
      fst (GetSubModule c'' entryname) = Returns None)"
proof (intro conjI impI)
  show "fst (GetSubModule (commitWithModules oneModule) ''libs/x'')
     = Returns (Some \<lparr>path = ''libs/x'', url = ''https://example.com/x.git''\<rparr>)"
    by code_simp
next
  assume "submoduleCache c = None \<and> blobs (repo c) (ID c) ''.gitmodules'' = None"
  then show "fst (GetSubModule c entryname) = Fails (ErrNotExist [] ''.gitmodules'')"
    by (simp add: GetSubModule_def GetSubModules_def GetTreeEntryByPath_def)
next
  assume a: "submoduleCache c' = None \<and> blobs (repo c') (ID c') ''.gitmodules'' = Some (Inr data) \<and>
    (\<forall>l \<in> set (ScanLines data). \<not> HasPrefix l ''[submodule'')"
  then have "scanModules False [] Map.empty (ScanLines data) = (None, Map.empty)"
    by (simp add: scanModules_no_section)
  with a show all: "GetSubModules c' = (Returns Map.empty, c'\<lparr>submoduleCache := Some Map.empty\<rparr>)"
    by (simp add: GetSubModules_def GetTreeEntryByPath_def Data_def)
  then show "fst (GetSubModule c' entryname) = Returns None"
    by (simp add: GetSubModule_def)
next
  assume "fst (GetSubModules c'') = Returns modules \<and> modules entryname = None"
  then show "fst (GetSubModule c'' entryname) = Returns None"
    by (cases "GetSubModules c''") (simp add: GetSubModule_def)
qed

theorem C3_submodule_lookup_witness:
  "fst (GetSubModule (commitWithModules oneModule\<lparr>ID := ''c2''\<rparr>) ''libs/x'')
     = Fails (ErrNotExist [] ''.gitmodules'') \<and>
   GetSubModules (commitWithModules noModule)
     = (Returns Map.empty, commitWithModules noModule\<lparr>submoduleCache := Some Map.empty\<rparr>) \<and>
   fst (GetSubModule (commitWithModules noModule) ''libs/x'') = Returns None \<and>
   fst (GetSubModule
          (commitWithModules oneModule
             \<lparr>submoduleCache :=
                Some [''libs/x'' \<mapsto> \<lparr>path = ''libs/x'', url = ''https://example.com/x.git''\<rparr>]\<rparr>)
          ''libs/y'') = Returns None"
proof -
  have lines: "ScanLines noModule = [''[core]'', [tab] @ ''bare = false'']"
    by code_simp
  have no_section: "\<not> HasPrefix ''[core]'' ''[submodule''"
    "\<not> HasPrefix ([tab] @ ''bare = false'') ''[submodule''"
    by (simp_all add: HasPrefix_def)
  have cached: "fst (GetSubModules
          (commitWithModules oneModule
             \<lparr>submoduleCache :=
                Some [''libs/x'' \<mapsto> \<lparr>path = ''libs/x'', url = ''https://example.com/x.git''\<rparr>]\<rparr>))
     = Returns [''libs/x'' \<mapsto> \<lparr>path = ''libs/x'', url = ''https://example.com/x.git''\<rparr>]"
    by (simp add: GetSubModules_def)
  have absent: "blobs (repo (commitWithModules oneModule)) ''c2'' ''.gitmodules'' = None"
    "submoduleCache (commitWithModules oneModule) = None"
    by (simp_all add: commitWithModules_def)
  have present: "blobs (repo (commitWithModules noModule)) (ID (commitWithModules noModule))
                   ''.gitmodules'' = Some (Inr noModule)"
    "submoduleCache (commitWithModules noModule) = None"
    by (simp_all add: commitWithModules_def)
  show ?thesis
    using C3_submodule_lookup
      [of "commitWithModules oneModule\<lparr>ID := ''c2''\<rparr>" "''libs/x''"
          "commitWithModules noModule" noModule
          "commitWithModules oneModule
             \<lparr>submoduleCache :=
                Some [''libs/x'' \<mapsto> \<lparr>path = ''libs/x'', url = ''https://example.com/x.git''\<rparr>]\<rparr>"
          "[''libs/x'' \<mapsto> \<lparr>path = ''libs/x'', url = ''https://example.com/x.git''\<rparr>]"]
      C3_submodule_lookup
      [of "commitWithModules oneModule\<lparr>ID := ''c2''\<rparr>" "''libs/y''"
          "commitWithModules noModule" noModule
          "commitWithModules oneModule
             \<lparr>submoduleCache :=
                Some [''libs/x'' \<mapsto> \<lparr>path = ''libs/x'', url = ''https://example.com/x.git''\<rparr>]\<rparr>"
          "[''libs/x'' \<mapsto> \<lparr>path = ''libs/x'', url = ''https://example.com/x.git''\<rparr>]"]
    by (simp add: lines no_section [simplified] cached absent present)
qed

section \<open>Insertions and deletions per user\<close>

lemma numStatLine_eq:
  "\<exists>e'. numStatLine (i, d, e) line = (i + lineInsertions line, d + lineDeletions line, e')"
  by (auto simp: numStatLine_def lineInsertions_def lineDeletions_def parsedOrZero_def Let_def
      split: prod.splits option.splits)

lemma foldl_numStatLine:
  "\<exists>e'. foldl numStatLine (i, d, e) ls =
     (i + sum_list (map lineInsertions ls), d + sum_list (map lineDeletions ls), e')"
proof (induction ls arbitrary: i d e)
  case Nil
  then show ?case by simp
next
  case (Cons l ls)
  obtain e1 where step: "numStatLine (i, d, e) l = (i + lineInsertions l, d + lineDeletions l, e1)"
    using numStatLine_eq by blast
  from Cons.IH [of "i + lineInsertions l" "d + lineDeletions l" e1] step
  show ?case by (auto simp: add.assoc)
qed

text \<open>A run of digits has no white space at either end, and only its size can make it fail.\<close>

lemma space_bytes_high:
  "xs \<in> set space2 \<union> set space3 \<Longrightarrow> x \<in> set xs \<Longrightarrow> 128 \<le> (of_char x :: nat)"
  by (auto simp: space2_def space3_def)

lemma head_in_take: "0 < n \<Longrightarrow> c \<in> set (take n (c # cs))"
  by (cases n) auto

lemma isDigit_not_space:
  assumes "isDigit c"
  shows "spaceWidth (c # cs) = 0 \<and> spaceWidthRev (c # cs) = 0"
proof -
  from assms have low: "(of_char c :: nat) < 128"
    by (simp add: isDigit_def)
  from assms have ascii: "\<not> asciiSpace c"
    by (auto simp: isDigit_def asciiSpace_def)
  have fwd: "take n (c # cs) \<notin> set space2 \<union> set space3" if "0 < n" for n
    using space_bytes_high [of "take n (c # cs)" c] head_in_take [OF that, of c cs] low by auto
  have bwd: "rev (take n (c # cs)) \<notin> set space2 \<union> set space3" if "0 < n" for n
    using space_bytes_high [of "rev (take n (c # cs))" c] head_in_take [OF that, of c cs] low by auto
  have "take 2 (c # cs) \<notin> set space2" "take 3 (c # cs) \<notin> set space3"
    "rev (take 2 (c # cs)) \<notin> set space2" "rev (take 3 (c # cs)) \<notin> set space3"
    using fwd [of 2] fwd [of 3] bwd [of 2] bwd [of 3] by simp_all
  with ascii show ?thesis
    by (simp only: spaceWidth_def spaceWidthRev_def list.case if_False simp_thms)
qed

lemma TrimSpace_digits:
  assumes "ds \<noteq> []" "list_all isDigit ds"
  shows "TrimSpace ds = ds"
proof -
  from assms obtain c cs where ds: "ds = c # cs" "isDigit c"
    by (cases ds) auto
  then have left: "TrimLeftSpace ds = ds"
    by (simp add: isDigit_not_space)
  from assms have "rev ds \<noteq> []" "isDigit (hd (rev ds))"
    by (auto simp: hd_rev list_all_iff)
  then obtain c' cs' where "rev ds = c' # cs'" "isDigit c'"
    by (cases "rev ds") auto
  then have "TrimLeftSpaceRev (rev ds) = rev ds"
    by (simp add: isDigit_not_space)
  with left show ?thesis
    by (simp add: TrimSpace_def)
qed

lemma digitRuns_are_digits:
  "f \<in> set (digitRuns cur s) \<Longrightarrow> list_all isDigit cur \<Longrightarrow> f \<noteq> [] \<and> list_all isDigit f"
  by (induction cur s rule: digitRuns.induct) (auto simp: flush_def split: if_splits)

lemma FindAllDigits_are_digits: "f \<in> set (FindAllDigits line) \<Longrightarrow> f \<noteq> [] \<and> list_all isDigit f"
  unfolding FindAllDigits_def using digitRuns_are_digits [of f "[]" line] by simp

lemma ParseInt_digits:
  assumes "ds \<noteq> []" "list_all isDigit ds"
  shows "ParseInt ds = (if digitsValue ds < 2 ^ 63 then (word_of_int (digitsValue ds), None)
                        else (word_of_int (2 ^ 63 - 1), Some (NumError ErrRange)))"
proof -
  from assms obtain c cs where ds: "ds = c # cs" "isDigit c"
    by (cases ds) auto
  then have "c \<noteq> CHR ''+''" "c \<noteq> CHR ''-''"
    by (auto simp: isDigit_def)
  with assms ds show ?thesis
    by (simp add: ParseInt_def Let_def not_le)
qed

lemma parsedOrZero_digits:
  "f \<in> set (FindAllDigits line) \<Longrightarrow>
     parsedOrZero f = (if digitsValue f < 2 ^ 63 then word_of_int (digitsValue f) else 0)"
  using FindAllDigits_are_digits [of f line]
  by (simp add: parsedOrZero_def TrimSpace_digits ParseInt_digits)


text \<open>
  Claim C2 gives, for the numstat lines \<open>"10\t2\tfile1"\<close> and \<open>"3\t1\tfile2"\<close>, the
  result \<open>Insertions = 13\<close>, \<open>Deletions = 3\<close>, \<open>Files = 2\<close>. The digit of each file
  name is a third numeric run of its line, so both lines count as zero.
\<close>

theorem C2_numstat_example_counterexample:
  "numStatCommitsPerUser (\<lambda>dir args. (numstatWithDigits, None)) ''ann'' ''/repo''
     = (Some \<lparr>Insertions = 0, Deletions = 0, StatsAuthor = ''ann'', Files = 2\<rparr>, None) \<and>
   FindAllDigits (''10'' @ [tab] @ ''2'' @ [tab] @ ''file1'') = [''10'', ''2'', ''1'']"
  by code_simp

text \<open>
  Claim C2, amended. When the run succeeds, the insertions and the deletions of the result
  are the sums (in \<open>int64\<close>) over the lines of the output of what each line adds, and
  \<open>Files\<close> is the number of lines. A line with exactly two numeric runs adds their values
  as (insertions, deletions), a run beyond the range of \<open>int64\<close> counting as zero; a line
  with any other number of runs adds zero to both. The digits of a file name are numeric
  runs: the lines \<open>"10\t2\tfile1"\<close> and \<open>"3\t1\tfile2"\<close> give \<open>Insertions = 0\<close>,
  \<open>Deletions = 0\<close>, \<open>Files = 2\<close>, and the lines \<open>"10\t2\tfile"\<close> and \<open>"3\t1\tother"\<close>
  give \<open>Insertions = 13\<close>, \<open>Deletions = 3\<close>, \<open>Files = 2\<close>.
\<close>

theorem C2_numstat:
  "(RunInDir repoPath (numStatCmd user) = (stdout, None) \<longrightarrow>
      fst (numStatCommitsPerUser RunInDir user repoPath) =
        Some \<lparr>Insertions = sum_list (map lineInsertions (butlast (Split stdout [nl]))),
              Deletions = sum_list (map lineDeletions (butlast (Split stdout [nl]))),
              StatsAuthor = user,
              Files = int (length (butlast (Split stdout [nl])))\<rparr>) \<and>
   (length (FindAllDigits line) \<noteq> 2 \<longrightarrow> lineInsertions line = 0 \<and> lineDeletions line = 0) \<and>
   (FindAllDigits line' = [a, b] \<longrightarrow>
      lineInsertions line' = (if digitsValue a < 2 ^ 63 then word_of_int (digitsValue a) else 0) \<and>
      lineDeletions line' = (if digitsValue b < 2 ^ 63 then word_of_int (digitsValue b) else 0)) \<and>
   numStatCommitsPerUser (\<lambda>dir args. (numstatWithDigits, None)) ''ann'' ''/repo''
     = (Some \<lparr>Insertions = 0, Deletions = 0, StatsAuthor = ''ann'', Files = 2\<rparr>, None) \<and>
   numStatCommitsPerUser (\<lambda>dir args. (numstatWithoutDigits, None)) ''ann'' ''/repo''
     = (Some \<lparr>Insertions = 13, Deletions = 3, StatsAuthor = ''ann'', Files = 2\<rparr>, None)"
proof (intro conjI impI)
  assume run: "RunInDir repoPath (numStatCmd user) = (stdout, None)"
  obtain e' where "foldl numStatLine (0, 0, None) (butlast (Split stdout [nl])) =
      (0 + sum_list (map lineInsertions (butlast (Split stdout [nl]))),
       0 + sum_list (map lineDeletions (butlast (Split stdout [nl]))), e')"
    using foldl_numStatLine by blast
  with run show "fst (numStatCommitsPerUser RunInDir user repoPath) =
        Some \<lparr>Insertions = sum_list (map lineInsertions (butlast (Split stdout [nl]))),
              Deletions = sum_list (map lineDeletions (butlast (Split stdout [nl]))),
              StatsAuthor = user,
              Files = int (length (butlast (Split stdout [nl])))\<rparr>"
    by (simp add: numStatCommitsPerUser_def Let_def)
next
  assume "length (FindAllDigits line) \<noteq> 2"
  then show "lineInsertions line = 0" "lineDeletions line = 0"
    by (simp_all add: lineInsertions_def lineDeletions_def)
next
  assume runs: "FindAllDigits line' = [a, b]"
  then have "a \<in> set (FindAllDigits line')" "b \<in> set (FindAllDigits line')"
    by simp_all
  then have "parsedOrZero a = (if digitsValue a < 2 ^ 63 then word_of_int (digitsValue a) else 0)"
    "parsedOrZero b = (if digitsValue b < 2 ^ 63 then word_of_int (digitsValue b) else 0)"
    by (simp_all add: parsedOrZero_digits)
  with runs show
    "lineInsertions line' = (if digitsValue a < 2 ^ 63 then word_of_int (digitsValue a) else 0)"
    "lineDeletions line' = (if digitsValue b < 2 ^ 63 then word_of_int (digitsValue b) else 0)"
    by (simp_all add: lineInsertions_def lineDeletions_def)
next
  show "numStatCommitsPerUser (\<lambda>dir args. (numstatWithDigits, None)) ''ann'' ''/repo''
     = (Some \<lparr>Insertions = 0, Deletions = 0, StatsAuthor = ''ann'', Files = 2\<rparr>, None)"
    by code_simp
next
  show "numStatCommitsPerUser (\<lambda>dir args. (numstatWithoutDigits, None)) ''ann'' ''/repo''
     = (Some \<lparr>Insertions = 13, Deletions = 3, StatsAuthor = ''ann'', Files = 2\<rparr>, None)"
    by code_simp
qed

theorem C2_numstat_witness:
  "fst (numStatCommitsPerUser (\<lambda>dir args. (numstatWithoutDigits, None)) ''ann'' ''/repo'')
     = Some \<lparr>Insertions = 13, Deletions = 3, StatsAuthor = ''ann'', Files = 2\<rparr> \<and>
   lineInsertions (''10'' @ [tab] @ ''2'' @ [tab] @ ''file1'') = 0 \<and>
   lineDeletions (''10'' @ [tab] @ ''2'' @ [tab] @ ''file1'') = 0 \<and>
   lineInsertions (''10'' @ [tab] @ ''2'' @ [tab] @ ''file'') = 10 \<and>
   lineDeletions (''10'' @ [tab] @ ''2'' @ [tab] @ ''file'') = 2"
proof -
  have runs: "FindAllDigits (''10'' @ [tab] @ ''2'' @ [tab] @ ''file1'') = [''10'', ''2'', ''1'']"
    "FindAllDigits (''10'' @ [tab] @ ''2'' @ [tab] @ ''file'') = [''10'', ''2'']"
    by code_simp+
  have vals: "digitsValue ''10'' = 10" "digitsValue ''2'' = 2"
    by code_simp+
  have lines: "butlast (Split numstatWithoutDigits [nl])
                 = [''10'' @ [tab] @ ''2'' @ [tab] @ ''file'', ''3'' @ [tab] @ ''1'' @ [tab] @ ''other'']"
    by code_simp
  have sums: "lineInsertions (''10'' @ [tab] @ ''2'' @ [tab] @ ''file'') = 10"
    "lineDeletions (''10'' @ [tab] @ ''2'' @ [tab] @ ''file'') = 2"
    "lineInsertions (''3'' @ [tab] @ ''1'' @ [tab] @ ''other'') = 3"
    "lineDeletions (''3'' @ [tab] @ ''1'' @ [tab] @ ''other'') = 1"
    by code_simp+
  show ?thesis
    using C2_numstat
      [of "\<lambda>dir args. (numstatWithoutDigits, None)" "''/repo''" "''ann''" numstatWithoutDigits
          "''10'' @ [tab] @ ''2'' @ [tab] @ ''file1''" "''10'' @ [tab] @ ''2'' @ [tab] @ ''file''"
          "''10''" "''2''"]
    by (simp add: runs [simplified] vals lines [simplified] sums [simplified])
qed

section \<open>Commits per collaborator and date\<close>

lemma SplitN2Acc_first:
  "d \<notin> set field \<Longrightarrow> SplitN2Acc [d] cur (field @ d # rest) = [cur @ field, rest]"
  by (induction field arbitrary: cur) auto

lemma SplitN2_first: "d \<notin> set field \<Longrightarrow> SplitN2 (field @ d # rest) [d] = [field, rest]"
  by (simp add: SplitN2_def SplitN2Acc_first)




text \<open>The loop over all the lines: one row for each line, in order, or the panic.\<close>

lemma SplitN2_with_colon:
  assumes "CHR '':'' \<in> set line"
  shows "SplitN2 line '':'' = [countField line, dateField line]"
proof -
  from assms have "dropWhile (\<lambda>c. c \<noteq> CHR '':'') line \<noteq> []"
    by (simp add: dropWhile_eq_Nil_conv)
  moreover have "dropWhile (\<lambda>c. c \<noteq> CHR '':'') line \<noteq> [] \<Longrightarrow>
      hd (dropWhile (\<lambda>c. c \<noteq> CHR '':'') line) = CHR '':''"
    using hd_dropWhile [of "\<lambda>c. c \<noteq> CHR '':''" line] by simp
  ultimately have "dropWhile (\<lambda>c. c \<noteq> CHR '':'') line = CHR '':'' # dateField line"
    by (cases "dropWhile (\<lambda>c. c \<noteq> CHR '':'') line") (auto simp: dateField_def)
  then have split: "line = countField line @ CHR '':'' # dateField line"
    using takeWhile_dropWhile_id [of "\<lambda>c. c \<noteq> CHR '':''" line] by (simp add: countField_def)
  have "CHR '':'' \<notin> set (countField line)"
    by (auto simp: countField_def dest: set_takeWhileD)
  from SplitN2_first [OF this, of "dateField line"] split show ?thesis
    by simp
qed

lemma SplitN2_without_colon: "CHR '':'' \<notin> set line \<Longrightarrow> SplitN2 line '':'' = [line]"
proof -
  have "d \<notin> set s \<Longrightarrow> SplitN2Acc [d] cur s = [cur @ s]" for d cur s
    by (induction s arbitrary: cur) auto
  then show "CHR '':'' \<notin> set line \<Longrightarrow> SplitN2 line '':'' = [line]"
    by (simp add: SplitN2_def)
qed


lemma collabLines_without_colon:
  "\<exists>line \<in> set ls. CHR '':'' \<notin> set line \<Longrightarrow> collabLines label commits ls = Inl IndexOutOfRange"
proof (induction ls arbitrary: commits)
  case Nil
  then show ?case by simp
next
  case (Cons line rest)
  show ?case
  proof (cases "CHR '':'' \<in> set line")
    case True
    with Cons.prems have "\<exists>l \<in> set rest. CHR '':'' \<notin> set l"
      by auto
    from Cons.IH [OF this] show ?thesis
      by (simp add: SplitN2_with_colon [OF True] index_def Let_def)
  next
    case False
    then show ?thesis
      by (simp add: SplitN2_without_colon index_def Let_def)
  qed
qed





section \<open>The code search: the page window\<close>

text \<open>The products of \<open>getRangeOfMatches\<close> when they do not wrap around.\<close>

lemma sint_mult_exact:
  fixes a b :: "64 word"
  assumes "- (2 ^ 63) \<le> sint a * sint b" "sint a * sint b < 2 ^ 63"
  shows "sint (a * b) = sint a * sint b"
  using assms by (simp add: sint_word_ariths signed_take_bit_int_eq_self)

lemma sint_pred_exact:
  fixes a :: "64 word"
  assumes "1 \<le> sint a"
  shows "sint (a - 1) = sint a - 1"
proof -
  have "sint a < 2 ^ 63"
    using sint_lt [of a] by simp
  with assms show ?thesis
    by (simp add: sint_word_ariths signed_take_bit_int_eq_self)
qed

lemma page_bounds:
  fixes p s :: "64 word"
  assumes "1 \<le> sint p" "0 < sint s" "sint p * sint s < 2 ^ 63"
  shows "sint (p * s) = sint p * sint s"
    and "sint ((p - 1) * s) = (sint p - 1) * sint s"
    and "0 \<le> (sint p - 1) * sint s"
    and "(sint p - 1) * sint s \<le> sint p * sint s"
proof -
  from assms have nonneg: "0 \<le> (sint p - 1) * sint s"
    by simp
  from assms have le: "(sint p - 1) * sint s \<le> sint p * sint s"
    by (simp add: mult_right_mono)
  from assms have pos: "0 \<le> sint p * sint s"
    by simp
  have neg: "- (2 ^ 63) \<le> (0 :: int)"
    by simp
  from neg pos have "- (2 ^ 63) \<le> sint p * sint s"
    by (rule order_trans)
  with assms show "sint (p * s) = sint p * sint s"
    by (intro sint_mult_exact) simp_all
  from neg nonneg have "- (2 ^ 63) \<le> (sint p - 1) * sint s"
    by (rule order_trans)
  moreover from le assms(3) have "(sint p - 1) * sint s < 2 ^ 63"
    by (rule le_less_trans)
  ultimately have "- (2 ^ 63) \<le> sint (p - 1) * sint s" "sint (p - 1) * sint s < 2 ^ 63"
    using assms by (simp_all add: sint_pred_exact)
  then have "sint ((p - 1) * s) = sint (p - 1) * sint s"
    by (rule sint_mult_exact)
  with assms show "sint ((p - 1) * s) = (sint p - 1) * sint s"
    by (simp add: sint_pred_exact)
  show "0 \<le> (sint p - 1) * sint s" by (fact nonneg)
  show "(sint p - 1) * sint s \<le> sint p * sint s" by (fact le)
qed


lemma parseBlocks_wellFormed:
  "\<forall>b \<in> set bs. wellFormed b \<Longrightarrow> parseBlocks ms bs = Inr (Inr (ms @ map blockMatch bs))"
proof (induction bs arbitrary: ms)
  case Nil
  then show ?case by simp
next
  case (Cons b bs)
  then show ?case
    by (subst parseBlocks_step) (simp add: wellFormed_def blockMatch_def Let_def)
qed

lemma parseBlocks_length:
  "parseBlocks ms bs = Inr (Inr ms') \<Longrightarrow> length ms' = length ms + length bs"
proof (induction bs arbitrary: ms)
  case Nil
  then show ?case by simp
next
  case (Cons b bs)
  from Cons.prems obtain m where "parseBlocks (ms @ [m]) bs = Inr (Inr ms')"
    unfolding parseBlocks_step by (auto split: if_splits)
  from Cons.IH [OF this] show ?case by simp
qed

lemma length_slice: "subslice xs lo hi = Inr ys \<Longrightarrow> length ys \<le> length xs \<and> int (length ys) = hi - lo"
  by (auto simp: subslice_def split: if_splits)

lemma length_pageWindow:
  assumes "1 \<le> page" "0 < pageSize" "(page - 1) * pageSize \<le> int (length blocks)"
  shows "int (length (pageWindow page pageSize blocks))
           = min pageSize (int (length blocks) - (page - 1) * pageSize)"
proof -
  define lo where "lo = (page - 1) * pageSize"
  from assms have lo: "0 \<le> lo" "lo \<le> int (length blocks)"
    by (simp_all add: lo_def)
  have hi: "page * pageSize = lo + pageSize"
    by (simp add: lo_def algebra_simps)
  have "int (length (take (nat (min (lo + pageSize) (int (length blocks)) - lo)) (drop (nat lo) blocks)))
          = min pageSize (int (length blocks) - lo)"
    using lo assms(2) by (simp add: min_def) linarith
  then show ?thesis
    by (simp add: pageWindow_def Let_def hi flip: lo_def)
qed

lemma getRangeOfMatches_length:
  assumes "getRangeOfMatches RunPipesInDir repoPath opts = Inr (ms, e)"
  shows "length ms \<le> length (Split (fst (RunPipesInDir repoPath (fetchCmd opts))) [nl, nl])"
proof -
  obtain stdout err where run: "RunPipesInDir repoPath (fetchCmd opts) = (stdout, err)"
    by (cases "RunPipesInDir repoPath (fetchCmd opts)")
  show ?thesis
  proof (cases "stdout = []")
    case True
    with assms run show ?thesis
      by (simp add: getRangeOfMatches_def)
  next
    case False
    with assms run obtain lo hi sel where
      sel: "subslice (Split stdout [nl, nl]) lo hi = Inr sel" and
      loop: "parseBlocks [] sel = Inr (Inr ms) \<or> ms = []"
      by (auto simp: getRangeOfMatches_def Let_def split: if_splits sum.splits)
    from loop show ?thesis
    proof
      assume "parseBlocks [] sel = Inr (Inr ms)"
      from parseBlocks_length [OF this] length_slice [OF sel] run show ?thesis
        by simp
    next
      assume "ms = []"
      then show ?thesis by simp
    qed
  qed
qed


lemma window_slice:
  assumes "1 \<le> sint (Page opts)" "0 < sint (PageSize opts)"
    "sint (Page opts) * sint (PageSize opts) < 2 ^ 63"
    "(sint (Page opts) - 1) * sint (PageSize opts) \<le> int (length results)"
  shows "subslice results (sint ((Page opts - 1) * PageSize opts))
           (if sint (Page opts * PageSize opts) < int (length results)
            then sint (Page opts * PageSize opts) else int (length results))
         = Inr (pageWindow (sint (Page opts)) (sint (PageSize opts)) results)"
proof -
  note b = page_bounds [OF assms(1-3)]
  show ?thesis
    using assms(4) b(3) b(4)
    by (simp add: b(1) b(2) subslice_def pageWindow_def Let_def min_def)
qed

text \<open>
  Claim C1 says that for every fetch-phase output and every page the result is the window of
  the block list, an empty slice without error when the page lies beyond the blocks. With
  two blocks and a page size of one, page four makes the slice expression
  \<open>results[3:2]\<close> panic; and an output whose only block has no newline gives
  \<open>(nil, io.EOF)\<close>, no match, though the window holds one block.
\<close>

theorem C1_page_beyond_counterexample:
  "getRangeOfMatches (\<lambda>dir args. (twoBlocks, None)) ''/repo'' (searchOpts 4 1)
     = Inl SliceBoundsOutOfRange \<and>
   length (Split twoBlocks [nl, nl]) = 2 \<and>
   getRangeOfMatches (\<lambda>dir args. (''c1 a.go'', None)) ''/repo'' (searchOpts 1 1)
     = Inr ([], Some EOF) \<and>
   length (Split ''c1 a.go'' [nl, nl]) = 1"
  by code_simp

text \<open>
  Claim C1, amended. For every non-empty fetch-phase output and all options with
  \<open>page \<ge> 1\<close> and \<open>pageSize > 0\<close> whose product does not overflow, and whose window starts at
  or before the end of the block list: \<open>GetRangeOfMatches\<close> selects the window
  \<open>[(page - 1) * pageSize, min (page * pageSize) totalBlocks)\<close> of the blank-line-separated
  blocks before it parses any block; when every block of the window has a header line with
  a colon, it returns the matches of exactly these blocks together with the error of the run;
  their number is \<open>min pageSize (totalBlocks - (page - 1) * pageSize)\<close> and never exceeds
  \<open>pageSize\<close>; and when the window starts at the end of the block list the result is the empty
  slice.
\<close>

theorem C1_page_window:
  "RunPipesInDir repoPath (fetchCmd opts) = (stdout, err) \<and> stdout \<noteq> [] \<and>
   1 \<le> sint (Page opts) \<and> 0 < sint (PageSize opts) \<and>
   sint (Page opts) * sint (PageSize opts) < 2 ^ 63 \<and>
   (sint (Page opts) - 1) * sint (PageSize opts) \<le> int (length (Split stdout [nl, nl])) \<and>
   (\<forall>b \<in> set (pageWindow (sint (Page opts)) (sint (PageSize opts)) (Split stdout [nl, nl])).
      wellFormed b) \<longrightarrow>
     getRangeOfMatches RunPipesInDir repoPath opts =
       Inr (map blockMatch (pageWindow (sint (Page opts)) (sint (PageSize opts)) (Split stdout [nl, nl])),
            err) \<and>
     int (length (pageWindow (sint (Page opts)) (sint (PageSize opts)) (Split stdout [nl, nl])))
       = min (sint (PageSize opts))
             (int (length (Split stdout [nl, nl])) - (sint (Page opts) - 1) * sint (PageSize opts)) \<and>
     int (length (pageWindow (sint (Page opts)) (sint (PageSize opts)) (Split stdout [nl, nl])))
       \<le> sint (PageSize opts) \<and>
     ((sint (Page opts) - 1) * sint (PageSize opts) = int (length (Split stdout [nl, nl])) \<longrightarrow>
        getRangeOfMatches RunPipesInDir repoPath opts = Inr ([], err))"
proof (intro impI)
  assume a: "RunPipesInDir repoPath (fetchCmd opts) = (stdout, err) \<and> stdout \<noteq> [] \<and>
   1 \<le> sint (Page opts) \<and> 0 < sint (PageSize opts) \<and>
   sint (Page opts) * sint (PageSize opts) < 2 ^ 63 \<and>
   (sint (Page opts) - 1) * sint (PageSize opts) \<le> int (length (Split stdout [nl, nl])) \<and>
   (\<forall>b \<in> set (pageWindow (sint (Page opts)) (sint (PageSize opts)) (Split stdout [nl, nl])).
      wellFormed b)"
  let ?W = "pageWindow (sint (Page opts)) (sint (PageSize opts)) (Split stdout [nl, nl])"
  from a have sl: "subslice (Split stdout [nl, nl]) (sint ((Page opts - 1) * PageSize opts))
           (if sint (Page opts * PageSize opts) < int (length (Split stdout [nl, nl]))
            then sint (Page opts * PageSize opts) else int (length (Split stdout [nl, nl])))
         = Inr ?W"
    by (intro window_slice) simp_all
  from a have loop: "parseBlocks [] ?W = Inr (Inr (map blockMatch ?W))"
    using parseBlocks_wellFormed [of ?W "[]"] by simp
  from a sl loop have res: "getRangeOfMatches RunPipesInDir repoPath opts = Inr (map blockMatch ?W, err)"
    by (simp add: getRangeOfMatches_def Let_def)
  from a have len: "int (length ?W)
       = min (sint (PageSize opts))
             (int (length (Split stdout [nl, nl])) - (sint (Page opts) - 1) * sint (PageSize opts))"
    by (intro length_pageWindow) simp_all
  show "getRangeOfMatches RunPipesInDir repoPath opts = Inr (map blockMatch ?W, err) \<and>
     int (length ?W)
       = min (sint (PageSize opts))
             (int (length (Split stdout [nl, nl])) - (sint (Page opts) - 1) * sint (PageSize opts)) \<and>
     int (length ?W) \<le> sint (PageSize opts) \<and>
     ((sint (Page opts) - 1) * sint (PageSize opts) = int (length (Split stdout [nl, nl])) \<longrightarrow>
        getRangeOfMatches RunPipesInDir repoPath opts = Inr ([], err))"
    using res len a by auto
qed


theorem C1_page_window_witness:
  "getRangeOfMatches (\<lambda>dir args. (twoBlocks, None)) ''/repo'' (searchOpts 2 1)
     = Inr ([\<lparr>CommitID = ''c2'', MatchPath = ''b.go'' @ [nl],
               Content = ''c2:b.go'' @ [nl] @ ''7:Foo'' @ [nl]\<rparr>], None) \<and>
   getRangeOfMatches (\<lambda>dir args. (twoBlocks, None)) ''/repo'' (searchOpts 3 1) = Inr ([], None)"
proof -
  have blocks: "Split twoBlocks [nl, nl]
                  = [''c1:a.go'' @ [nl] @ ''1:foo'', ''c2:b.go'' @ [nl] @ ''7:Foo'' @ [nl]]"
    by code_simp
  have nonempty: "twoBlocks \<noteq> []"
    by (simp add: twoBlocks_def)
  have ok: "wellFormed (''c2:b.go'' @ [nl] @ ''7:Foo'' @ [nl])"
    by (simp add: wellFormed_def headerHasColon_def)
  have m: "blockMatch (''c2:b.go'' @ [nl] @ ''7:Foo'' @ [nl])
             = \<lparr>CommitID = ''c2'', MatchPath = ''b.go'' @ [nl],
                Content = ''c2:b.go'' @ [nl] @ ''7:Foo'' @ [nl]\<rparr>"
    by code_simp
  have w: "pageWindow 2 1 [''c1:a.go'' @ [nl] @ ''1:foo'', ''c2:b.go'' @ [nl] @ ''7:Foo'' @ [nl]]
             = [''c2:b.go'' @ [nl] @ ''7:Foo'' @ [nl]]"
    "pageWindow 3 1 [''c1:a.go'' @ [nl] @ ''1:foo'', ''c2:b.go'' @ [nl] @ ''7:Foo'' @ [nl]] = []"
    by (simp_all add: pageWindow_def)
  show ?thesis
    using C1_page_window
      [of "\<lambda>dir args. (twoBlocks, None)" "''/repo''" "searchOpts 2 1" twoBlocks None]
      C1_page_window
      [of "\<lambda>dir args. (twoBlocks, None)" "''/repo''" "searchOpts 3 1" twoBlocks None]
    by (simp add: searchOpts_def blocks [simplified] nonempty ok [simplified] m [simplified]
        w [simplified])
qed

section \<open>The code search: count and page together\<close>

lemma getNumberOfCodeMatches_newlines:
  "fst (getNumberOfCodeMatches RunPipesInDir repoPath keyword)
     = int (length (filter (\<lambda>c. c = nl) (fst (RunPipesInDir repoPath (countCmd keyword)))))"
  by (cases "RunPipesInDir repoPath (countCmd keyword)")
     (simp add: getNumberOfCodeMatches_def length_Split_char)

text \<open>
  Claim C4 says that the composed search always returns \<open>numberMatches \<ge> len(results)\<close>.
  The two numbers come from two outputs that the code never compares: with a count phase
  that reports one file and a fetch phase that returns two blocks, the result has
  \<open>NumberMatches = 1\<close> and two matches.
\<close>

theorem C4_count_below_page_counterexample:
  "ShearchMatchesThisRepo twoPhaseRunner sampleRepo (searchOpts 1 10)
     = Returns \<lparr>NumberMatches = 1, Results = map blockMatch (Split twoBlocks [nl, nl])\<rparr> \<and>
   length (map blockMatch (Split twoBlocks [nl, nl])) = 2"
  by code_simp

text \<open>
  Claim C4, amended. In a result of the composed search, \<open>numberMatches\<close> is the number of
  newline characters of the count-phase output and \<open>len(results)\<close> is at most the number of
  blank-line-separated blocks of the fetch-phase output; so \<open>numberMatches \<ge> len(results)\<close>
  holds whenever the count-phase output has at least as many newlines as the fetch-phase
  output has blocks.
\<close>

theorem C4_count_and_page:
  "ShearchMatchesThisRepo RunPipesInDir r opts = Returns m \<longrightarrow>
     NumberMatches m
       = int (length (filter (\<lambda>c. c = nl) (fst (RunPipesInDir (Path r) (countCmd (Keyword opts)))))) \<and>
     length (Results m) \<le> length (Split (fst (RunPipesInDir (Path r) (fetchCmd opts))) [nl, nl]) \<and>
     (int (length (Split (fst (RunPipesInDir (Path r) (fetchCmd opts))) [nl, nl]))
        \<le> int (length (filter (\<lambda>c. c = nl) (fst (RunPipesInDir (Path r) (countCmd (Keyword opts))))))
      \<longrightarrow> int (length (Results m)) \<le> NumberMatches m)"
proof (intro impI)
  assume ret: "ShearchMatchesThisRepo RunPipesInDir r opts = Returns m"
  obtain n e where cnt: "getNumberOfCodeMatches RunPipesInDir (Path r) (Keyword opts) = (n, e)"
    by (cases "getNumberOfCodeMatches RunPipesInDir (Path r) (Keyword opts)")
  from ret cnt obtain e' where
    page: "getRangeOfMatches RunPipesInDir (Path r) opts = Inr (Results m, e')" and
    n: "NumberMatches m = n"
    by (auto simp: ShearchMatchesThisRepo_def GetNumberOfCodeMatches_def GetRangeOfMatches_def
        split: option.splits sum.splits prod.splits)
  from cnt n have count: "NumberMatches m
       = int (length (filter (\<lambda>c. c = nl) (fst (RunPipesInDir (Path r) (countCmd (Keyword opts))))))"
    using getNumberOfCodeMatches_newlines [of RunPipesInDir "Path r" "Keyword opts"] by simp
  from getRangeOfMatches_length [OF page]
  have len: "length (Results m) \<le> length (Split (fst (RunPipesInDir (Path r) (fetchCmd opts))) [nl, nl])" .
  from count len show "NumberMatches m
       = int (length (filter (\<lambda>c. c = nl) (fst (RunPipesInDir (Path r) (countCmd (Keyword opts)))))) \<and>
     length (Results m) \<le> length (Split (fst (RunPipesInDir (Path r) (fetchCmd opts))) [nl, nl]) \<and>
     (int (length (Split (fst (RunPipesInDir (Path r) (fetchCmd opts))) [nl, nl]))
        \<le> int (length (filter (\<lambda>c. c = nl) (fst (RunPipesInDir (Path r) (countCmd (Keyword opts))))))
      \<longrightarrow> int (length (Results m)) \<le> NumberMatches m)"
    by auto
qed

theorem C4_count_and_page_witness:
  "NumberMatches \<lparr>NumberMatches = 2, Results = map blockMatch (Split twoBlocks [nl, nl])\<rparr> = 2 \<and>
   int (length (Results \<lparr>NumberMatches = 2, Results = map blockMatch (Split twoBlocks [nl, nl])\<rparr>))
     \<le> NumberMatches \<lparr>NumberMatches = 2, Results = map blockMatch (Split twoBlocks [nl, nl])\<rparr>"
proof -
  have run: "ShearchMatchesThisRepo agreeingRunner sampleRepo (searchOpts 1 10)
     = Returns \<lparr>NumberMatches = 2, Results = map blockMatch (Split twoBlocks [nl, nl])\<rparr>"
    by code_simp
  have outputs:
    "length (filter (\<lambda>c. c = nl) (fst (agreeingRunner (Path sampleRepo) (countCmd (Keyword (searchOpts 1 10)))))) = 2"
    "length (Split (fst (agreeingRunner (Path sampleRepo) (fetchCmd (searchOpts 1 10)))) [nl, nl]) = 2"
    by code_simp+
  show ?thesis
    using C4_count_and_page
      [of agreeingRunner sampleRepo "searchOpts 1 10"
          "\<lparr>NumberMatches = 2, Results = map blockMatch (Split twoBlocks [nl, nl])\<rparr>"]
      run outputs
    by simp
qed

end
